theory Spec2Isabelle
  imports Main "HOL-Library.AList" "HOL-Library.Word"
begin

unbundle bit_operations_syntax

section \<open>Panics\<close>

text \<open>
  The Go code signals every fatal condition by panicking: \<open>log.Panic\<close> with a message, or
  a run-time panic (a nil pointer dereference, an index out of range). A panic is the
  left injection of the result; the store it leaves behind is kept beside it, since Go
  does not undo the writes made before a panic.
\<close>

datatype error = Panic string | NilDereference | IndexOutOfRange

section \<open>Field types\<close>

text \<open>
  Modelled from the spec: the \<open>fieldtype\<close> package (the type \<open>fieldtype.Type\<close> and its
  predicates) is not among the sources. The kinds are the ones the data model names
  (plain, reverse-relation, many-to-many junction); the predicates follow the messages
  of \<open>checkFieldInfo\<close> ("'one2many' and 'rev2one' fields must define an 'ReverseFK'
  parameter", "'Embed' should be set only on many2one or one2one fields") and the comment
  of \<open>isStored\<close> ("reverse fields are not stored").
\<close>

datatype fieldtype =
  NoType | Binary | Boolean | CharField | Date | DateTime | FloatField | HTML
  | IntegerField | Many2Many | Many2One | One2Many | One2One | Rev2One | Reference
  | Selection | TextField

definition IsReverseRelationType :: "fieldtype \<Rightarrow> bool" where
  "IsReverseRelationType t = (t = One2Many \<or> t = Rev2One)"

definition IsFKRelationType :: "fieldtype \<Rightarrow> bool" where
  "IsFKRelationType t = (t = Many2One \<or> t = One2One)"

definition IsNonStoredRelationType :: "fieldtype \<Rightarrow> bool" where
  "IsNonStoredRelationType t = (t = One2Many \<or> t = Many2Many \<or> t = Rev2One)"

section \<open>The data model\<close>

text \<open>
  \<open>OnDeleteAction\<close> is a string type in the source; its zero value is the empty string.
\<close>

type_synonym OnDeleteAction = string

definition SetNull :: OnDeleteAction where "SetNull = ''set null''"
definition Restrict :: OnDeleteAction where "Restrict = ''restrict''"
definition Cascade :: OnDeleteAction where "Cascade = ''cascade''"

text \<open>
  The Go types that the code compares through \<open>reflect\<close>: the type of a struct field
  (\<open>int64\<close> for a generated foreign key, \<open>RecordCollection\<close> for a relation) and the
  return types of a compute method. \<open>NoRType\<close> is the nil \<open>reflect.Type\<close> of a zero
  \<open>StructField\<close>.
\<close>

datatype rtype = NoRType | Int64T | RecordCollectionT | FieldNamerSliceT | OtherT string

record StructField =
  sfName :: string
  sfType :: rtype

text \<open>
  Pointers are addresses into a store: \<open>*Model\<close>, \<open>*Field\<close> and \<open>*FieldsCollection\<close>
  are natural numbers, a pointer that may be nil is an \<open>option\<close>.
\<close>

record computeData =
  modelInfo :: nat
  computeName :: string
  path :: string

record Field =
  model :: "nat option"
  name :: string
  json :: string
  stored :: bool
  required :: bool
  unique :: bool
  index :: bool
  compute :: string
  depends :: "string list"
  relatedModelName :: string
  relatedModel :: "nat option"
  reverseFK :: string
  m2mRelModel :: "nat option"
  m2mOurField :: "nat option"
  m2mTheirField :: "nat option"
  fieldType :: fieldtype
  structField :: StructField
  relatedPath :: string
  dependencies :: "computeData list"
  embed :: bool
  noCopy :: bool
  onDelete :: OnDeleteAction

text \<open>
  A Go map is an association list with its lookup \<open>map_of\<close> and its store
  \<open>AList.update\<close>; a \<open>range\<close> over the map visits the list in its order, which stands
  for the order the run time picks.
\<close>

record FieldsCollection =
  fcModel :: "nat option"
  registryByName :: "(string \<times> nat) list"
  registryByJSON :: "(string \<times> nat) list"
  computedFields :: "nat list"
  computedStoredFields :: "nat list"
  relatedFields :: "nat list"
  bootstrapped :: bool

record funcType =
  ins :: "rtype list"
  outs :: "rtype list"

record Method =
  methName :: string
  methModel :: "nat option"
  methodType :: funcType

text \<open>
  Of \<open>Model\<close> the sources show the fields that \<open>createM2MRelModelInfo\<close> sets; the
  methods collection is a registry by name, and \<open>options\<close> a set of flags.
\<close>

record Model =
  mname :: string
  tableName :: string
  mfields :: nat
  methods :: "(string \<times> Method) list"
  options :: nat

record state =
  fieldStore :: "nat \<Rightarrow> Field"
  collStore :: "nat \<Rightarrow> FieldsCollection"
  modelStore :: "nat \<Rightarrow> Model"
  fieldCount :: nat
  collCount :: nat
  modelCount :: nat
  Registry_registryByName :: "(string \<times> nat) list"
  Registry_registryByTableName :: "(string \<times> nat) list"

definition updField :: "nat \<Rightarrow> (Field \<Rightarrow> Field) \<Rightarrow> state \<Rightarrow> state" where
  "updField fi g s = s\<lparr>fieldStore := (fieldStore s)(fi := g (fieldStore s fi))\<rparr>"

definition updColl :: "nat \<Rightarrow> (FieldsCollection \<Rightarrow> FieldsCollection) \<Rightarrow> state \<Rightarrow> state" where
  "updColl fc g s = s\<lparr>collStore := (collStore s)(fc := g (collStore s fc))\<rparr>"

text \<open>Sequencing of two steps: a panic of the first ends the run in the store it left.\<close>

definition seq ::
  "(state \<Rightarrow> (error + unit) \<times> state) \<Rightarrow> (state \<Rightarrow> (error + 'a) \<times> state) \<Rightarrow>
   state \<Rightarrow> (error + 'a) \<times> state" where
  "seq m k s = (case m s of (Inl e, s') \<Rightarrow> (Inl e, s') | (Inr _, s') \<Rightarrow> k s')"

section \<open>Field predicates\<close>

definition isComputedField :: "Field \<Rightarrow> bool" where
  "isComputedField f = (compute f \<noteq> [])"

definition isRelatedField :: "Field \<Rightarrow> bool" where
  "isRelatedField f = (relatedPath f \<noteq> [])"

definition isRelationField :: "Field \<Rightarrow> bool" where
  "isRelationField f = (relatedModelName f \<noteq> [])"

definition isStored :: "Field \<Rightarrow> bool" where
  "isStored f =
     (if IsNonStoredRelationType (fieldType f) then False
      else if (isComputedField f \<or> isRelatedField f) \<and> \<not> stored f then False
      else True)"

section \<open>checkFieldInfo\<close>

text \<open>
  The arguments of every \<open>log.Panic\<close> and \<open>log.Warn\<close> call of \<open>checkFieldInfo\<close> read
  \<open>fi.model.name\<close>: with a nil \<open>fi.model\<close> the call is never reached and the run-time
  panics instead. The messages are the source's, without their quotation marks.
\<close>

definition logArgs :: "Field \<Rightarrow> error option" where
  "logArgs f = (case model f of None \<Rightarrow> Some NilDereference | Some m \<Rightarrow> None)"

definition logPanic :: "Field \<Rightarrow> string \<Rightarrow> error" where
  "logPanic f msg = (case logArgs f of Some e \<Rightarrow> e | None \<Rightarrow> Panic msg)"

definition checkReverseFK :: "nat \<Rightarrow> state \<Rightarrow> (error + unit) \<times> state" where
  "checkReverseFK fi s =
     (let f = fieldStore s fi in
      if IsReverseRelationType (fieldType f) \<and> reverseFK f = []
      then (Inl (logPanic f
              ''one2many and rev2one fields must define an ReverseFK parameter''), s)
      else (Inr (), s))"

definition checkEmbed :: "nat \<Rightarrow> state \<Rightarrow> (error + unit) \<times> state" where
  "checkEmbed fi s =
     (let f = fieldStore s fi in
      if embed f \<and> \<not> IsFKRelationType (fieldType f)
      then (case logArgs f of
              Some e \<Rightarrow> (Inl e, s)
            | None \<Rightarrow> (Inr (), updField fi (\<lambda>g. g\<lparr>embed := False\<rparr>) s))
      else (Inr (), s))"

definition checkRelationModel :: "nat \<Rightarrow> state \<Rightarrow> (error + unit) \<times> state" where
  "checkRelationModel fi s =
     (let f = fieldStore s fi in
      if sfType (structField f) = RecordCollectionT
      then (case relatedModel f of
              None \<Rightarrow> (Inl NilDereference, s)
            | Some rm \<Rightarrow>
                if mname (modelStore s rm) = []
                then (Inl (logPanic f ''Undefined relation model on related field''), s)
                else (Inr (), s))
      else (Inr (), s))"

definition checkStored :: "nat \<Rightarrow> state \<Rightarrow> (error + unit) \<times> state" where
  "checkStored fi s =
     (let f = fieldStore s fi in
      if stored f \<and> \<not> isComputedField f
      then (case logArgs f of
              Some e \<Rightarrow> (Inl e, s)
            | None \<Rightarrow> (Inr (), updField fi (\<lambda>g. g\<lparr>stored := False\<rparr>) s))
      else (Inr (), s))"

definition checkFieldInfo :: "nat \<Rightarrow> state \<Rightarrow> (error + unit) \<times> state" where
  "checkFieldInfo fi =
     seq (checkReverseFK fi) (seq (checkEmbed fi) (seq (checkRelationModel fi) (checkStored fi)))"

section \<open>FieldsCollection\<close>

definition newFieldsCollection :: FieldsCollection where
  "newFieldsCollection =
     \<lparr>fcModel = None, registryByName = [], registryByJSON = [], computedFields = [],
      computedStoredFields = [], relatedFields = [], bootstrapped = False\<rparr>"

text \<open>\<open>get\<close> returns the pair \<open>(fi, ok)\<close> of the source as an option.\<close>

definition get :: "FieldsCollection \<Rightarrow> string \<Rightarrow> nat option" where
  "get fc n =
     (case map_of (registryByName fc) n of
        Some fi \<Rightarrow> Some fi
      | None \<Rightarrow> map_of (registryByJSON fc) n)"

definition MustGet :: "FieldsCollection \<Rightarrow> string \<Rightarrow> error + nat" where
  "MustGet fc n =
     (case get fc n of
        None \<Rightarrow> Inl (Panic ''Unknown field in model'')
      | Some fi \<Rightarrow> Inr fi)"

text \<open>The appends of \<open>register\<close> to the three slices, for the field \<open>f\<close> at address \<open>fi\<close>.\<close>

definition classify :: "Field \<Rightarrow> nat \<Rightarrow> FieldsCollection \<Rightarrow> FieldsCollection" where
  "classify f fi c =
     (let c1 = (if isComputedField f
                then (if stored f
                      then c\<lparr>computedStoredFields := computedStoredFields c @ [fi]\<rparr>
                      else c\<lparr>computedFields := computedFields c @ [fi]\<rparr>)
                else c)
      in if isRelatedField f then c1\<lparr>relatedFields := relatedFields c1 @ [fi]\<rparr> else c1)"

definition store :: "nat \<Rightarrow> nat \<Rightarrow> state \<Rightarrow> (error + unit) \<times> state" where
  "store fc fi s =
     (let f = fieldStore s fi in
      (Inr (),
       updColl fc
         (\<lambda>c. classify f fi
                (c\<lparr>registryByName := AList.update (name f) fi (registryByName c),
                   registryByJSON := AList.update (json f) fi (registryByJSON c)\<rparr>))
         s))"

text \<open>
  \<open>register\<close>: the sanity checks, then the two stores into the maps and the appends to
  the slices (\<open>store\<close> above is the part of its body after \<open>checkFieldInfo\<close>). The lock
  it takes has no effect on a single thread.
\<close>

definition register :: "nat \<Rightarrow> nat \<Rightarrow> state \<Rightarrow> (error + unit) \<times> state" where
  "register fc fi = seq (checkFieldInfo fi) (store fc fi)"

definition add :: "nat \<Rightarrow> nat \<Rightarrow> state \<Rightarrow> (error + unit) \<times> state" where
  "add fc fi s =
     (let f = fieldStore s fi in
      if map_of (registryByName (collStore s fc)) (name f) \<noteq> None
      then (Inl (logPanic f ''Trying to add already existing field''), s)
      else register fc fi s)"

text \<open>
  The calls of \<open>register\<close> that populate a collection, in the order of the list; the
  first panic ends them.
\<close>

fun registerAll :: "nat \<Rightarrow> nat list \<Rightarrow> state \<Rightarrow> (error + unit) \<times> state" where
  "registerAll fc [] s = (Inr (), s)"
| "registerAll fc (fi # fis) s =
     (case register fc fi s of
        (Inl e, s') \<Rightarrow> (Inl e, s')
      | (Inr _, s') \<Rightarrow> registerAll fc fis s')"

section \<open>createM2MRelModelInfo\<close>

text \<open>
  Modelled from the spec: the model registry (\<open>Registry.Get\<close>, \<open>Registry.add\<close>) and the
  option constants are not among the sources. \<open>Get\<close> looks a model up by its name,
  \<open>add\<close> enters it under its name and its table name, and \<open>Many2ManyLinkModel\<close> is the
  option that marks a pure link (junction) model. \<open>strutils.SnakeCaseString\<close> is a
  parameter (\<open>snake\<close>) of the function that calls it.
\<close>

definition Many2ManyLinkModel :: nat where
  "Many2ManyLinkModel = 1"

definition Registry_Get :: "state \<Rightarrow> string \<Rightarrow> nat option" where
  "Registry_Get s n = map_of (Registry_registryByName s) n"

definition Registry_add :: "nat \<Rightarrow> state \<Rightarrow> state" where
  "Registry_add mi s =
     s\<lparr>Registry_registryByName :=
         AList.update (mname (modelStore s mi)) mi (Registry_registryByName s),
       Registry_registryByTableName :=
         AList.update (tableName (modelStore s mi)) mi (Registry_registryByTableName s)\<rparr>"

text \<open>The operator \<open>&T{...}\<close>: the value is stored at the next free address.\<close>

definition allocColl :: "FieldsCollection \<Rightarrow> state \<Rightarrow> nat \<times> state" where
  "allocColl c s =
     (collCount s, s\<lparr>collStore := (collStore s)(collCount s := c), collCount := Suc (collCount s)\<rparr>)"

definition allocModel :: "Model \<Rightarrow> state \<Rightarrow> nat \<times> state" where
  "allocModel m s =
     (modelCount s,
      s\<lparr>modelStore := (modelStore s)(modelCount s := m), modelCount := Suc (modelCount s)\<rparr>)"

definition allocField :: "Field \<Rightarrow> state \<Rightarrow> nat \<times> state" where
  "allocField f s =
     (fieldCount s,
      s\<lparr>fieldStore := (fieldStore s)(fieldCount s := f), fieldCount := Suc (fieldCount s)\<rparr>)"

text \<open>
  The struct literal of the two foreign keys of a junction model; the fields it does not
  name have their zero values.
\<close>

definition m2mField :: "(string \<Rightarrow> string) \<Rightarrow> nat \<Rightarrow> string \<Rightarrow> Field" where
  "m2mField snake newMI m =
     \<lparr>model = Some newMI, name = m, json = snake m @ ''_id'', stored = False,
      required = True, unique = False, index = True, compute = [], depends = [],
      relatedModelName = m, relatedModel = None, reverseFK = [], m2mRelModel = None,
      m2mOurField = None, m2mTheirField = None, fieldType = Many2One,
      structField = \<lparr>sfName = m, sfType = Int64T\<rparr>, relatedPath = [], dependencies = [],
      embed = False, noCopy = True, onDelete = Cascade\<rparr>"

text \<open>The loop over the fields of an existing junction model.\<close>

fun findM2MFields ::
  "string \<Rightarrow> string \<Rightarrow> (string \<times> nat) list \<Rightarrow> nat option \<times> nat option \<Rightarrow>
   nat option \<times> nat option" where
  "findM2MFields model1 model2 [] acc = acc"
| "findM2MFields model1 model2 ((fName, fi) # rest) (m1, m2) =
     findM2MFields model1 model2 rest
       (if fName = model1 then (Some fi, m2)
        else if fName = model2 then (m1, Some fi)
        else (m1, m2))"

definition createM2MRelModelInfo ::
  "(string \<Rightarrow> string) \<Rightarrow> string \<Rightarrow> string \<Rightarrow> string \<Rightarrow> state \<Rightarrow>
   (error + nat \<times> nat option \<times> nat option) \<times> state" where
  "createM2MRelModelInfo snake relModelName model1 model2 s =
     (case Registry_Get s relModelName of
        Some relMI \<Rightarrow>
          (let (m1, m2) =
                 findM2MFields model1 model2
                   (registryByName (collStore s (mfields (modelStore s relMI)))) (None, None)
           in (Inr (relMI, m1, m2), s))
      | None \<Rightarrow>
          (let (fc, s1) = allocColl newFieldsCollection s;
               (newMI, s2) =
                 allocModel
                   \<lparr>mname = relModelName, tableName = snake relModelName, mfields = fc,
                    methods = [], options = Many2ManyLinkModel\<rparr> s1;
               (ourField, s3) = allocField (m2mField snake newMI model1) s2
           in case add fc ourField s3 of
                (Inl e, s4) \<Rightarrow> (Inl e, s4)
              | (Inr _, s4) \<Rightarrow>
                  (let (theirField, s5) = allocField (m2mField snake newMI model2) s4
                   in case add fc theirField s5 of
                        (Inl e, s6) \<Rightarrow> (Inl e, s6)
                      | (Inr _, s6) \<Rightarrow>
                          (Inr (newMI, Some ourField, Some theirField),
                           Registry_add newMI s6))))"

text \<open>
  The store that the creation of a junction model leaves: the two foreign keys at the
  next two field addresses, the collection that registers them, the model, and the
  model in the two registries.
\<close>

definition junctionCreated ::
  "(string \<Rightarrow> string) \<Rightarrow> string \<Rightarrow> string \<Rightarrow> string \<Rightarrow> state \<Rightarrow> state" where
  "junctionCreated snake relModelName model1 model2 s =
     s\<lparr>fieldStore :=
         (fieldStore s)
           (fieldCount s := m2mField snake (modelCount s) model1,
            Suc (fieldCount s) := m2mField snake (modelCount s) model2),
       collStore :=
         (collStore s)
           (collCount s :=
              newFieldsCollection
                \<lparr>registryByName := [(model1, fieldCount s), (model2, Suc (fieldCount s))],
                 registryByJSON :=
                   AList.update (snake model2 @ ''_id'') (Suc (fieldCount s))
                     [(snake model1 @ ''_id'', fieldCount s)]\<rparr>),
       modelStore :=
         (modelStore s)
           (modelCount s :=
              \<lparr>mname = relModelName, tableName = snake relModelName, mfields = collCount s,
               methods = [], options = Many2ManyLinkModel\<rparr>),
       fieldCount := Suc (Suc (fieldCount s)),
       collCount := Suc (collCount s),
       modelCount := Suc (modelCount s),
       Registry_registryByName :=
         AList.update relModelName (modelCount s) (Registry_registryByName s),
       Registry_registryByTableName :=
         AList.update (snake relModelName) (modelCount s) (Registry_registryByTableName s)\<rparr>"

section \<open>processDepends\<close>

text \<open>
  Modelled from the spec: the constant \<open>ExprSep\<close> is not among the sources; a path is
  a dot-separated chain of field names.
\<close>

definition ExprSep :: char where
  "ExprSep = CHR ''.''"

text \<open>
  \<open>strings.Split\<close> and \<open>strings.Join\<close> at the separator: the split of the empty
  string is the one empty segment.
\<close>

fun Split :: "string \<Rightarrow> string list" where
  "Split [] = [[]]"
| "Split (c # cs) =
     (if c = ExprSep then [] # Split cs
      else (case Split cs of [] \<Rightarrow> [[c]] | w # ws \<Rightarrow> (c # w) # ws))"

fun Join :: "string list \<Rightarrow> string" where
  "Join [] = []"
| "Join [w] = w"
| "Join (w # v # ws) = w @ ExprSep # Join (v # ws)"

text \<open>
  \<open>jsonizeExpr\<close> and \<open>getRelatedModelInfo\<close> are not among the sources: they are the
  parameters \<open>J\<close> and \<open>G\<close> of \<open>processDepends\<close>. Both read the names and the relations
  of the registry, which \<open>processDepends\<close> does not write; either may panic.
\<close>

type_synonym jsonizer = "nat \<Rightarrow> string list \<Rightarrow> error + string list"
type_synonym follower = "nat \<Rightarrow> string \<Rightarrow> error + nat"

text \<open>The body of the innermost loop, for one \<open>depString\<close> of the field \<open>fInfo\<close> of \<open>mi\<close>.\<close>

definition processDep ::
  "jsonizer \<Rightarrow> follower \<Rightarrow> nat \<Rightarrow> nat \<Rightarrow> string \<Rightarrow> state \<Rightarrow> (error + unit) \<times> state" where
  "processDep J G mi fInfo depString s =
     (if depString = [] then (Inr (), s)
      else case J mi (Split depString) of
        Inl e \<Rightarrow> (Inl e, s)
      | Inr tokens \<Rightarrow>
          if tokens = [] then (Inl IndexOutOfRange, s)
          else
            (let refName = last tokens;
                 p = Join (butlast tokens);
                 targetComputeData =
                   \<lparr>modelInfo = mi, computeName = compute (fieldStore s fInfo), path = p\<rparr>
             in case G mi p of
                  Inl e \<Rightarrow> (Inl e, s)
                | Inr refModelInfo \<Rightarrow>
                    (case MustGet (collStore s (mfields (modelStore s refModelInfo))) refName of
                       Inl e \<Rightarrow> (Inl e, s)
                     | Inr refField \<Rightarrow>
                         (Inr (),
                          updField refField
                            (\<lambda>f. f\<lparr>dependencies := dependencies f @ [targetComputeData]\<rparr>) s))))"

fun dependsLoop ::
  "jsonizer \<Rightarrow> follower \<Rightarrow> nat \<Rightarrow> nat \<Rightarrow> string list \<Rightarrow> state \<Rightarrow> (error + unit) \<times> state" where
  "dependsLoop J G mi fInfo [] s = (Inr (), s)"
| "dependsLoop J G mi fInfo (depString # rest) s =
     (case processDep J G mi fInfo depString s of
        (Inl e, s') \<Rightarrow> (Inl e, s')
      | (Inr _, s') \<Rightarrow> dependsLoop J G mi fInfo rest s')"

fun fieldsLoop ::
  "jsonizer \<Rightarrow> follower \<Rightarrow> nat \<Rightarrow> (string \<times> nat) list \<Rightarrow> state \<Rightarrow> (error + unit) \<times> state" where
  "fieldsLoop J G mi [] s = (Inr (), s)"
| "fieldsLoop J G mi ((jsonName, fInfo) # rest) s =
     (case dependsLoop J G mi fInfo (depends (fieldStore s fInfo)) s of
        (Inl e, s') \<Rightarrow> (Inl e, s')
      | (Inr _, s') \<Rightarrow> fieldsLoop J G mi rest s')"

fun modelsLoop ::
  "jsonizer \<Rightarrow> follower \<Rightarrow> (string \<times> nat) list \<Rightarrow> state \<Rightarrow> (error + unit) \<times> state" where
  "modelsLoop J G [] s = (Inr (), s)"
| "modelsLoop J G ((tName, mi) # rest) s =
     (case fieldsLoop J G mi (registryByJSON (collStore s (mfields (modelStore s mi)))) s of
        (Inl e, s') \<Rightarrow> (Inl e, s')
      | (Inr _, s') \<Rightarrow> modelsLoop J G rest s')"

definition processDepends :: "jsonizer \<Rightarrow> follower \<Rightarrow> state \<Rightarrow> (error + unit) \<times> state" where
  "processDepends J G s = modelsLoop J G (Registry_registryByTableName s) s"

text \<open>
  The reverse edges that the registry of a store asks for, computed without writing: one
  for every model of the registry, every field of its JSON registry and every non-empty
  entry of the field's \<open>depends\<close>, with the field the edge is attached to.
\<close>

definition edge ::
  "jsonizer \<Rightarrow> follower \<Rightarrow> state \<Rightarrow> nat \<Rightarrow> nat \<Rightarrow> string \<Rightarrow> (nat \<times> computeData) list" where
  "edge J G s mi fInfo depString =
     (if depString = [] then []
      else case J mi (Split depString) of
        Inl e \<Rightarrow> []
      | Inr tokens \<Rightarrow>
          if tokens = [] then []
          else
            (case G mi (Join (butlast tokens)) of
               Inl e \<Rightarrow> []
             | Inr refModelInfo \<Rightarrow>
                 (case MustGet (collStore s (mfields (modelStore s refModelInfo))) (last tokens) of
                    Inl e \<Rightarrow> []
                  | Inr refField \<Rightarrow>
                      [(refField,
                        \<lparr>modelInfo = mi, computeName = compute (fieldStore s fInfo),
                         path = Join (butlast tokens)\<rparr>)])))"

definition fieldEdges ::
  "jsonizer \<Rightarrow> follower \<Rightarrow> state \<Rightarrow> nat \<Rightarrow> nat \<Rightarrow> (nat \<times> computeData) list" where
  "fieldEdges J G s mi fInfo =
     concat (map (edge J G s mi fInfo) (depends (fieldStore s fInfo)))"

definition modelEdges ::
  "jsonizer \<Rightarrow> follower \<Rightarrow> state \<Rightarrow> nat \<Rightarrow> (nat \<times> computeData) list" where
  "modelEdges J G s mi =
     concat (map (\<lambda>(jsonName, fInfo). fieldEdges J G s mi fInfo)
               (registryByJSON (collStore s (mfields (modelStore s mi)))))"

definition edges :: "jsonizer \<Rightarrow> follower \<Rightarrow> state \<Rightarrow> (nat \<times> computeData) list" where
  "edges J G s =
     concat (map (\<lambda>(tName, mi). modelEdges J G s mi) (Registry_registryByTableName s))"

definition edgesTo :: "jsonizer \<Rightarrow> follower \<Rightarrow> state \<Rightarrow> nat \<Rightarrow> computeData list" where
  "edgesTo J G s a = map snd (filter (\<lambda>e. fst e = a) (edges J G s))"

text \<open>The edges of a list that are attached to the field at address \<open>a\<close>.\<close>

definition attached :: "nat \<Rightarrow> (nat \<times> computeData) list \<Rightarrow> computeData list" where
  "attached a es = map snd (filter (\<lambda>e. fst e = a) es)"

text \<open>
  Two stores that differ in nothing but the \<open>dependencies\<close> of their fields.
\<close>

definition onlyDeps :: "state \<Rightarrow> state \<Rightarrow> bool" where
  "onlyDeps s s' =
     (collStore s' = collStore s \<and> modelStore s' = modelStore s \<and>
      fieldCount s' = fieldCount s \<and> collCount s' = collCount s \<and>
      modelCount s' = modelCount s \<and>
      Registry_registryByName s' = Registry_registryByName s \<and>
      Registry_registryByTableName s' = Registry_registryByTableName s \<and>
      (\<forall>a. fieldStore s' a = (fieldStore s a)\<lparr>dependencies := dependencies (fieldStore s' a)\<rparr>))"

text \<open>One \<open>depString\<close> that is processed without a panic yields its edge.\<close>

definition edgeFound ::
  "jsonizer \<Rightarrow> follower \<Rightarrow> state \<Rightarrow> nat \<Rightarrow> nat \<Rightarrow> string \<Rightarrow> bool" where
  "edgeFound J G s mi fInfo depString =
     (depString \<noteq> [] \<longrightarrow>
        (\<exists>tokens refModelInfo refField.
           J mi (Split depString) = Inr tokens \<and> tokens \<noteq> [] \<and>
           G mi (Join (butlast tokens)) = Inr refModelInfo \<and>
           MustGet (collStore s (mfields (modelStore s refModelInfo))) (last tokens) = Inr refField))"

section \<open>checkComputeMethodsSignature\<close>

text \<open>
  The parameter \<open>impl\<close> tells which return types implement the interface \<open>FieldMapper\<close>
  (the interface is not among the sources); \<open>FieldNamerSliceT\<close> is the type
  \<open>[]FieldNamer\<close>.
\<close>

definition checkMethTypeMsg :: "(rtype \<Rightarrow> bool) \<Rightarrow> funcType \<Rightarrow> bool \<Rightarrow> string" where
  "checkMethTypeMsg impl methType isStoredField =
     (if length (ins methType) \<noteq> 1 then ''Compute methods should have no arguments''
      else if length (outs methType) = 0 then ''Compute methods should return a value''
      else if \<not> impl (outs methType ! 0)
        then ''First return argument must implement models.FieldMapper''
      else if length (outs methType) = 1 \<and> isStoredField
        then ''Compute methods for stored field must return fields to unset as second value''
      else if length (outs methType) = 2 \<and> outs methType ! 1 \<noteq> FieldNamerSliceT
        then ''Second return value of compute methods must be []models.FieldNamer''
      else if length (outs methType) > 2 then ''Too many return values for compute method''
      else [])"

text \<open>
  \<open>checkMethType\<close>: the panic of the closure, if any. The arguments of its \<open>log.Panic\<close>
  read \<open>method.model.name\<close>.
\<close>

definition checkMethType :: "(rtype \<Rightarrow> bool) \<Rightarrow> Method \<Rightarrow> bool \<Rightarrow> error option" where
  "checkMethType impl meth isStoredField =
     (let msg = checkMethTypeMsg impl (methodType meth) isStoredField
      in if msg \<noteq> []
         then (case methModel meth of None \<Rightarrow> Some NilDereference | Some m \<Rightarrow> Some (Panic msg))
         else None)"

text \<open>
  Modelled from the spec: \<open>MethodsCollection.MustGet\<close> is not among the sources; like
  \<open>FieldsCollection.MustGet\<close> it returns the method of the given name or panics.
\<close>

definition Methods_MustGet :: "(string \<times> Method) list \<Rightarrow> string \<Rightarrow> error + Method" where
  "Methods_MustGet ms n =
     (case map_of ms n of
        None \<Rightarrow> Inl (Panic ''Unknown method in model'')
      | Some meth \<Rightarrow> Inr meth)"

fun checkFieldsLoop ::
  "(rtype \<Rightarrow> bool) \<Rightarrow> state \<Rightarrow> nat \<Rightarrow> bool \<Rightarrow> nat list \<Rightarrow> error option" where
  "checkFieldsLoop impl s mi isStoredField [] = None"
| "checkFieldsLoop impl s mi isStoredField (fi # rest) =
     (case Methods_MustGet (methods (modelStore s mi)) (compute (fieldStore s fi)) of
        Inl e \<Rightarrow> Some e
      | Inr meth \<Rightarrow>
          (case checkMethType impl meth isStoredField of
             Some e \<Rightarrow> Some e
           | None \<Rightarrow> checkFieldsLoop impl s mi isStoredField rest))"

fun checkModelsLoop :: "(rtype \<Rightarrow> bool) \<Rightarrow> state \<Rightarrow> (string \<times> nat) list \<Rightarrow> error option" where
  "checkModelsLoop impl s [] = None"
| "checkModelsLoop impl s ((mName, mi) # rest) =
     (case checkFieldsLoop impl s mi False
             (computedFields (collStore s (mfields (modelStore s mi)))) of
        Some e \<Rightarrow> Some e
      | None \<Rightarrow>
          (case checkFieldsLoop impl s mi True
                  (computedStoredFields (collStore s (mfields (modelStore s mi)))) of
             Some e \<Rightarrow> Some e
           | None \<Rightarrow> checkModelsLoop impl s rest))"

text \<open>\<open>checkComputeMethodsSignature\<close> returns the panic that ends it, or \<open>None\<close>.\<close>

definition checkComputeMethodsSignature :: "(rtype \<Rightarrow> bool) \<Rightarrow> state \<Rightarrow> error option" where
  "checkComputeMethodsSignature impl s = checkModelsLoop impl s (Registry_registryByName s)"

section \<open>Record rules\<close>

text \<open>
  The permissions of the \<open>security\<close> package, as its documentation declares them:
  \<open>type Permission uint8\<close> with \<open>Read = 1 << iota\<close>, \<open>Write\<close>, \<open>Unlink\<close> and
  \<open>All = Read | Write | Unlink\<close>.
\<close>

type_synonym Permission = "8 word"

definition Read :: Permission where "Read = 1"
definition Write :: Permission where "Write = 2"
definition Unlink :: Permission where "Unlink = 4"
definition All_perm :: Permission where "All_perm = Read OR Write OR Unlink"

text \<open>
  A record rule as the documentation declares the struct; the condition is a filter over
  the records of the model whose values may depend on the acting environment. A group
  is its name.
\<close>

record ('e, 'r) RecordRule =
  Name :: string
  Global :: bool
  Group :: "string option"
  Condition :: "'e \<Rightarrow> 'r \<Rightarrow> bool"
  Perms :: Permission

text \<open>
  \<open>AddRecordRule\<close> registers a rule under its name and overwrites a rule of the same
  name; \<open>RemoveRecordRule\<close> removes the rule of a name.
\<close>

definition AddRecordRule ::
  "('e, 'r) RecordRule \<Rightarrow> (string \<times> ('e, 'r) RecordRule) list \<Rightarrow>
   (string \<times> ('e, 'r) RecordRule) list" where
  "AddRecordRule rule reg = AList.update (Name rule) rule reg"

definition RemoveRecordRule ::
  "string \<Rightarrow> (string \<times> ('e, 'r) RecordRule) list \<Rightarrow> (string \<times> ('e, 'r) RecordRule) list" where
  "RemoveRecordRule n reg = AList.delete n reg"

text \<open>
  Modelled from the spec: the code that combines the record rules of a model is not
  among the sources. For a permission, the applicable rules are parted into the global
  rules and the group rules of the acting user's groups; a record is accessible iff it
  satisfies every global rule's condition, and there are no applicable group rules or it
  satisfies at least one of them. A rule governs a permission when its bitmask holds
  the permission's bit.
\<close>

definition governs :: "('e, 'r) RecordRule \<Rightarrow> Permission \<Rightarrow> bool" where
  "governs rule perm = (Perms rule AND perm \<noteq> 0)"

definition globalRules ::
  "(string \<times> ('e, 'r) RecordRule) list \<Rightarrow> Permission \<Rightarrow> ('e, 'r) RecordRule list" where
  "globalRules reg perm = filter (\<lambda>rule. Global rule \<and> governs rule perm) (map snd reg)"

definition inGroups :: "('e, 'r) RecordRule \<Rightarrow> string list \<Rightarrow> bool" where
  "inGroups rule groups = (case Group rule of None \<Rightarrow> False | Some g \<Rightarrow> g \<in> set groups)"

definition groupRules ::
  "(string \<times> ('e, 'r) RecordRule) list \<Rightarrow> Permission \<Rightarrow> string list \<Rightarrow>
   ('e, 'r) RecordRule list" where
  "groupRules reg perm groups =
     filter (\<lambda>rule. \<not> Global rule \<and> governs rule perm \<and> inGroups rule groups) (map snd reg)"

definition accessible ::
  "(string \<times> ('e, 'r) RecordRule) list \<Rightarrow> Permission \<Rightarrow> string list \<Rightarrow> 'e \<Rightarrow> 'r \<Rightarrow> bool" where
  "accessible reg perm groups env r =
     (list_all (\<lambda>rule. Condition rule env r) (globalRules reg perm) \<and>
      (groupRules reg perm groups = [] \<or>
       list_ex (\<lambda>rule. Condition rule env r) (groupRules reg perm groups)))"

text \<open>
  The signature that the contract of compute methods asks for: no argument beyond the
  receiver, a first return value that implements \<open>FieldMapper\<close> and, for a stored
  field, a second one of type \<open>[]FieldNamer\<close>; a second return value of another type
  and more than two return values are refused.
\<close>

definition computeSignatureOK :: "(rtype \<Rightarrow> bool) \<Rightarrow> funcType \<Rightarrow> bool \<Rightarrow> bool" where
  "computeSignatureOK impl t isStoredField =
     (length (ins t) = 1 \<and>
      (case outs t of
         [r] \<Rightarrow> impl r \<and> \<not> isStoredField
       | [r, u] \<Rightarrow> impl r \<and> u = FieldNamerSliceT
       | _ \<Rightarrow> False))"

section \<open>Zero values\<close>

text \<open>The zero values of the Go structs, and the store of a program that has allocated nothing.\<close>

definition zeroField :: Field where
  "zeroField =
     \<lparr>model = None, name = [], json = [], stored = False, required = False,
      unique = False, index = False, compute = [], depends = [], relatedModelName = [],
      relatedModel = None, reverseFK = [], m2mRelModel = None, m2mOurField = None,
      m2mTheirField = None, fieldType = NoType,
      structField = \<lparr>sfName = [], sfType = NoRType\<rparr>, relatedPath = [],
      dependencies = [], embed = False, noCopy = False, onDelete = []\<rparr>"

definition zeroModel :: Model where
  "zeroModel = \<lparr>mname = [], tableName = [], mfields = 0, methods = [], options = 0\<rparr>"

definition zeroState :: state where
  "zeroState =
     \<lparr>fieldStore = (\<lambda>a. zeroField), collStore = (\<lambda>a. newFieldsCollection),
      modelStore = (\<lambda>a. zeroModel), fieldCount = 0, collCount = 0, modelCount = 0,
      Registry_registryByName = [], Registry_registryByTableName = []\<rparr>"

section \<open>Invariants of a collection\<close>

text \<open>
  The classification of a registered field \<open>fi\<close> by the three slices of a collection:
  the slice of the stored computed fields holds it iff it has a compute method and is
  stored, the slice of the computed fields iff it has a compute method and is not
  stored, the slice of the related fields iff it has a related path.
\<close>

definition classified :: "state \<Rightarrow> FieldsCollection \<Rightarrow> nat \<Rightarrow> bool" where
  "classified s c fi =
     (let f = fieldStore s fi in
      (fi \<in> set (computedStoredFields c) \<longleftrightarrow> compute f \<noteq> [] \<and> stored f) \<and>
      (fi \<in> set (computedFields c) \<longleftrightarrow> compute f \<noteq> [] \<and> \<not> stored f) \<and>
      (fi \<in> set (relatedFields c) \<longleftrightarrow> relatedPath f \<noteq> []))"

text \<open>
  The invariant over the set \<open>R\<close> of the fields registered so far: each is classified,
  the slices hold registered fields only, and no field is in both computed slices.
\<close>

definition classification :: "nat set \<Rightarrow> state \<Rightarrow> FieldsCollection \<Rightarrow> bool" where
  "classification R s c =
     ((\<forall>fi\<in>R. classified s c fi) \<and>
      set (computedStoredFields c) \<union> set (computedFields c) \<union> set (relatedFields c) \<subseteq> R \<and>
      set (computedStoredFields c) \<inter> set (computedFields c) = {})"

text \<open>
  The keys of the two registries are the names of the fields they map to, and every
  registered field has its two names among the keys.
\<close>

definition keysNamed :: "nat set \<Rightarrow> state \<Rightarrow> FieldsCollection \<Rightarrow> bool" where
  "keysNamed R s c =
     ((\<forall>(k, fi)\<in>set (registryByName c). fi \<in> R \<and> name (fieldStore s fi) = k) \<and>
      (\<forall>(k, fi)\<in>set (registryByJSON c). fi \<in> R \<and> json (fieldStore s fi) = k) \<and>
      (\<forall>fi\<in>R. name (fieldStore s fi) \<in> fst ` set (registryByName c) \<and>
                json (fieldStore s fi) \<in> fst ` set (registryByJSON c)))"


section \<open>Example registries\<close>

text \<open>
  A store with one model \<open>User\<close> at address 0, whose collection is at address 0, and the
  given fields at the addresses 0, 1, ... (not yet registered).
\<close>

definition exModel :: Model where
  "exModel = zeroModel\<lparr>mname := ''User'', tableName := ''user''\<rparr>"

definition exStore :: "Field list \<Rightarrow> state" where
  "exStore fs =
     zeroState\<lparr>fieldStore := (\<lambda>a. if a < length fs then fs ! a else zeroField),
               modelStore := (\<lambda>a. if a = 0 then exModel else zeroModel),
               fieldCount := length fs, collCount := 1, modelCount := 1\<rparr>"

definition ageField :: Field where
  "ageField =
     zeroField\<lparr>model := Some 0, name := ''Age'', json := ''age'', stored := True,
               compute := ''ComputeAge'', depends := [''Birthday''],
               fieldType := IntegerField\<rparr>"

definition nameField :: Field where
  "nameField =
     zeroField\<lparr>model := Some 0, name := ''Name'', json := ''name'', fieldType := CharField\<rparr>"

definition profileNameField :: Field where
  "profileNameField =
     zeroField\<lparr>model := Some 0, name := ''ProfileName'', json := ''profile_name'',
               stored := True, relatedPath := ''Profile.Name'', fieldType := CharField\<rparr>"

definition postsField :: Field where
  "postsField =
     zeroField\<lparr>model := Some 0, name := ''Posts'', json := ''posts_ids'',
               relatedModelName := ''Post'', fieldType := One2Many\<rparr>"

text \<open>The store \<open>exStore [ageField, nameField]\<close> after the field \<open>Age\<close> has been added.\<close>

definition exRegistered :: state where
  "exRegistered =
     (exStore [ageField, nameField])
       \<lparr>collStore := (\<lambda>a. if a = 0
          then newFieldsCollection\<lparr>registryByName := [(''Age'', 0)],
                 registryByJSON := [(''age'', 0)], computedStoredFields := [0]\<rparr>
          else newFieldsCollection)\<rparr>"

text \<open>
  The registry of a bootstrap: the model \<open>User\<close> with its field \<open>Age\<close> registered
  and a compute method \<open>ComputeAge\<close> of the given return types; \<open>FieldMap\<close> is the
  one type that implements \<open>FieldMapper\<close>.
\<close>

definition exMethod :: "rtype list \<Rightarrow> Method" where
  "exMethod rs =
     \<lparr>methName = ''ComputeAge'', methModel = Some 0,
      methodType = \<lparr>ins = [RecordCollectionT], outs = rs\<rparr>\<rparr>"

definition exBootstrap :: "rtype list \<Rightarrow> state" where
  "exBootstrap rs =
     exRegistered
       \<lparr>modelStore := (\<lambda>a. if a = 0 then exModel\<lparr>methods := [(''ComputeAge'', exMethod rs)]\<rparr>
                             else zeroModel),
        Registry_registryByName := [(''User'', 0)],
        Registry_registryByTableName := [(''user'', 0)]\<rparr>"

definition exImpl :: "rtype \<Rightarrow> bool" where
  "exImpl t = (t = OtherT ''FieldMap'')"

text \<open>
  The rules of the example of the testable properties: a global rule that asks for
  active records, the rule of group \<open>G1\<close> (the record's owner is the acting user) and
  the rule of group \<open>G2\<close> (the department is Sales, for reading only). The environment
  is the acting user's id.
\<close>

record exRecord =
  active :: bool
  owner :: nat
  department :: string

definition exRules :: "(string \<times> (nat, exRecord) RecordRule) list" where
  "exRules =
     AddRecordRule
       \<lparr>Name = ''sales_department'', Global = False, Group = Some ''G2'',
        Condition = (\<lambda>uid r. department r = ''Sales''), Perms = Read\<rparr>
       (AddRecordRule
          \<lparr>Name = ''own_records'', Global = False, Group = Some ''G1'',
           Condition = (\<lambda>uid r. owner r = uid), Perms = All_perm\<rparr>
          (AddRecordRule
             \<lparr>Name = ''active_only'', Global = True, Group = None,
              Condition = (\<lambda>uid r. active r), Perms = All_perm\<rparr> []))"

text \<open>
  The junction model of the relation between \<open>User\<close> and \<open>Group\<close>, created in the
  empty store, and a store with a junction model \<open>TagTagRel\<close> whose one field is
  named \<open>Tag\<close>.
\<close>

definition exJunction :: state where
  "exJunction = junctionCreated (\<lambda>n. n) ''UserGroupRel'' ''User'' ''Group'' zeroState"

definition exSelfJunction :: state where
  "exSelfJunction =
     zeroState
       \<lparr>fieldStore := (\<lambda>a. if a = 0 then m2mField (\<lambda>n. n) 0 ''Tag'' else zeroField),
        collStore := (\<lambda>a. if a = 0
           then newFieldsCollection\<lparr>registryByName := [(''Tag'', 0)],
                  registryByJSON := [(''Tag_id'', 0)]\<rparr>
           else newFieldsCollection),
        modelStore := (\<lambda>a. if a = 0
           then \<lparr>mname = ''TagTagRel'', tableName = ''TagTagRel'', mfields = 0, methods = [],
                 options = Many2ManyLinkModel\<rparr>
           else zeroModel),
        fieldCount := 1, collCount := 1, modelCount := 1,
        Registry_registryByName := [(''TagTagRel'', 0)],
        Registry_registryByTableName := [(''TagTagRel'', 0)]\<rparr>"

text \<open>
  A registry with the models \<open>User\<close> (address 0) and \<open>Profile\<close> (address 1). \<open>User\<close>
  has the many2one field \<open>Profile\<close> and the stored computed fields \<open>DisplayName\<close>
  (depending on \<open>Profile.Name\<close> and on \<open>Profile\<close>) and \<open>Greeting\<close> (depending on
  \<open>Profile.Name\<close>); \<open>Profile\<close> has the field \<open>Name\<close>. The instances of the two
  parameters of \<open>processDepends\<close> for this registry: \<open>exJsonize\<close> rewrites a segment
  to the JSON name of the field it names, \<open>exFollow\<close> reaches \<open>Profile\<close> from \<open>User\<close>
  by the path \<open>profile_id\<close> and stays where it is on the empty path.
  \<open>exDependsDone\<close> is the registry with the three reverse edges appended.
\<close>

definition exJsonize :: jsonizer where
  "exJsonize mi tokens =
     Inr (map (\<lambda>t. if t = ''Profile'' then ''profile_id''
                    else if t = ''Name'' then ''name'' else t) tokens)"

definition exFollow :: follower where
  "exFollow mi p =
     (if p = [] then Inr mi
      else if mi = 0 \<and> p = ''profile_id'' then Inr 1
      else Inl (Panic ''Unknown field in model''))"

definition exDepends :: state where
  "exDepends =
     zeroState
       \<lparr>fieldStore := (\<lambda>a.
          if a = 0 then
            zeroField\<lparr>model := Some 0, name := ''Profile'', json := ''profile_id'',
                      relatedModelName := ''Profile'', relatedModel := Some 1,
                      fieldType := Many2One\<rparr>
          else if a = 1 then
            zeroField\<lparr>model := Some 0, name := ''DisplayName'', json := ''display_name'',
                      stored := True, compute := ''ComputeDisplayName'',
                      depends := [''Profile.Name'', ''Profile''], fieldType := CharField\<rparr>
          else if a = 2 then
            zeroField\<lparr>model := Some 1, name := ''Name'', json := ''name'',
                      fieldType := CharField\<rparr>
          else if a = 3 then
            zeroField\<lparr>model := Some 0, name := ''Greeting'', json := ''greeting'',
                      stored := True, compute := ''ComputeGreeting'',
                      depends := [''Profile.Name''], fieldType := CharField\<rparr>
          else zeroField),
        collStore := (\<lambda>a.
          if a = 0 then
            newFieldsCollection
              \<lparr>registryByName := [(''Profile'', 0), (''DisplayName'', 1), (''Greeting'', 3)],
               registryByJSON := [(''profile_id'', 0), (''display_name'', 1), (''greeting'', 3)],
               computedStoredFields := [1, 3]\<rparr>
          else if a = 1 then
            newFieldsCollection
              \<lparr>registryByName := [(''Name'', 2)], registryByJSON := [(''name'', 2)]\<rparr>
          else newFieldsCollection),
        modelStore := (\<lambda>a.
          if a = 0 then zeroModel\<lparr>mname := ''User'', tableName := ''user'', mfields := 0\<rparr>
          else if a = 1 then
            zeroModel\<lparr>mname := ''Profile'', tableName := ''profile'', mfields := 1\<rparr>
          else zeroModel),
        fieldCount := 4, collCount := 2, modelCount := 2,
        Registry_registryByName := [(''User'', 0), (''Profile'', 1)],
        Registry_registryByTableName := [(''user'', 0), (''profile'', 1)]\<rparr>"

definition addDependency :: "nat \<Rightarrow> computeData \<Rightarrow> state \<Rightarrow> state" where
  "addDependency a cd = updField a (\<lambda>f. f\<lparr>dependencies := dependencies f @ [cd]\<rparr>)"

definition exDependsDone :: state where
  "exDependsDone =
     addDependency 2
       \<lparr>modelInfo = 0, computeName = ''ComputeGreeting'', path = ''profile_id''\<rparr>
       (addDependency 0
          \<lparr>modelInfo = 0, computeName = ''ComputeDisplayName'', path = []\<rparr>
          (addDependency 2
             \<lparr>modelInfo = 0, computeName = ''ComputeDisplayName'', path = ''profile_id''\<rparr>
             exDepends))"

section \<open>Field validation: what a successful check leaves\<close>


lemma checkFieldInfo_Inr:
  assumes "checkFieldInfo fi s = (Inr u, s')"
  shows "s' = updField fi (\<lambda>g. g\<lparr>embed := embed g \<and> IsFKRelationType (fieldType g),
                                  stored := stored g \<and> isComputedField g\<rparr>) s"
  using assms
  unfolding checkFieldInfo_def seq_def checkReverseFK_def checkEmbed_def checkRelationModel_def
    checkStored_def
  by (auto simp: Let_def updField_def isComputedField_def fun_eq_iff split: if_splits option.splits prod.splits sum.splits intro!: state.equality)

lemma checkFieldInfo_reverse:
  assumes "IsReverseRelationType (fieldType (fieldStore s fi))" "reverseFK (fieldStore s fi) = []"
  shows "checkFieldInfo fi s =
     (Inl (logPanic (fieldStore s fi) ''one2many and rev2one fields must define an ReverseFK parameter''), s)"
  using assms by (simp add: checkFieldInfo_def seq_def checkReverseFK_def)

lemma checkFieldInfo_frame:
  assumes "checkFieldInfo fi s = (r, s')"
  shows "collStore s' = collStore s \<and> modelStore s' = modelStore s
     \<and> (\<forall>a. a \<noteq> fi \<longrightarrow> fieldStore s' a = fieldStore s a)
     \<and> name (fieldStore s' fi) = name (fieldStore s fi)
     \<and> json (fieldStore s' fi) = json (fieldStore s fi)
     \<and> compute (fieldStore s' fi) = compute (fieldStore s fi)
     \<and> relatedPath (fieldStore s' fi) = relatedPath (fieldStore s fi)
     \<and> fieldType (fieldStore s' fi) = fieldType (fieldStore s fi)
     \<and> reverseFK (fieldStore s' fi) = reverseFK (fieldStore s fi)"
  using assms
  unfolding checkFieldInfo_def seq_def checkReverseFK_def checkEmbed_def checkRelationModel_def
    checkStored_def
  by (auto simp: Let_def updField_def split: if_splits option.splits prod.splits sum.splits)

lemma register_Inr:
  assumes "register fc fi s = (Inr u, s')"
  shows "\<exists>s1. checkFieldInfo fi s = (Inr (), s1) \<and> s' = snd (store fc fi s1)"
  using assms by (auto simp: register_def seq_def store_def Let_def split: prod.splits sum.splits)

lemma register_Inl:
  assumes "register fc fi s = (Inl e, s')"
  shows "checkFieldInfo fi s = (Inl e, s')"
  using assms by (auto simp: register_def seq_def store_def Let_def split: prod.splits sum.splits)

lemma classify_maps [simp]:
  "registryByName (classify f fi c) = registryByName c"
  "registryByJSON (classify f fi c) = registryByJSON c"
  by (simp_all add: classify_def Let_def)

lemma classify_slices:
  "set (computedStoredFields (classify f fi c)) =
     set (computedStoredFields c) \<union> (if compute f \<noteq> [] \<and> stored f then {fi} else {})"
  "set (computedFields (classify f fi c)) =
     set (computedFields c) \<union> (if compute f \<noteq> [] \<and> \<not> stored f then {fi} else {})"
  "set (relatedFields (classify f fi c)) =
     set (relatedFields c) \<union> (if relatedPath f \<noteq> [] then {fi} else {})"
  by (auto simp: classify_def Let_def isComputedField_def isRelatedField_def)

lemma store_eq:
  "store fc fi s = (r, s') \<Longrightarrow>
     r = Inr () \<and> fieldStore s' = fieldStore s \<and> modelStore s' = modelStore s \<and>
     collStore s' = (collStore s)(fc := classify (fieldStore s fi) fi
        ((collStore s fc)\<lparr>registryByName := AList.update (name (fieldStore s fi)) fi (registryByName (collStore s fc)),
                   registryByJSON := AList.update (json (fieldStore s fi)) fi (registryByJSON (collStore s fc))\<rparr>))"
  by (auto simp: store_def Let_def updColl_def)


lemma register_effect:
  assumes "register fc fi s = (Inr u, s')"
  shows "modelStore s' = modelStore s"
    and "\<And>a. a \<noteq> fi \<Longrightarrow> fieldStore s' a = fieldStore s a"
    and "name (fieldStore s' fi) = name (fieldStore s fi)"
    and "json (fieldStore s' fi) = json (fieldStore s fi)"
    and "compute (fieldStore s' fi) = compute (fieldStore s fi)"
    and "relatedPath (fieldStore s' fi) = relatedPath (fieldStore s fi)"
    and "fieldType (fieldStore s' fi) = fieldType (fieldStore s fi)"
    and "reverseFK (fieldStore s' fi) = reverseFK (fieldStore s fi)"
    and "stored (fieldStore s' fi) = (stored (fieldStore s fi) \<and> compute (fieldStore s fi) \<noteq> [])"
    and "\<And>c. c \<noteq> fc \<Longrightarrow> collStore s' c = collStore s c"
    and "collStore s' fc = classify (fieldStore s' fi) fi
        ((collStore s fc)\<lparr>registryByName := AList.update (name (fieldStore s' fi)) fi (registryByName (collStore s fc)),
                   registryByJSON := AList.update (json (fieldStore s' fi)) fi (registryByJSON (collStore s fc))\<rparr>)"
proof -
  from register_Inr[OF assms] obtain s1 where
    c: "checkFieldInfo fi s = (Inr (), s1)" and s': "s' = snd (store fc fi s1)" by blast
  have st: "store fc fi s1 = (Inr (), s')" using s' by (simp add: store_def Let_def)
  note fr = checkFieldInfo_frame[OF c] and eq = store_eq[OF st] and cr = checkFieldInfo_Inr[OF c]
  show "modelStore s' = modelStore s" using fr eq by simp
  show "\<And>a. a \<noteq> fi \<Longrightarrow> fieldStore s' a = fieldStore s a" using fr eq by simp
  show "name (fieldStore s' fi) = name (fieldStore s fi)" using fr eq by simp
  show "json (fieldStore s' fi) = json (fieldStore s fi)" using fr eq by simp
  show "compute (fieldStore s' fi) = compute (fieldStore s fi)" using fr eq by simp
  show "relatedPath (fieldStore s' fi) = relatedPath (fieldStore s fi)" using fr eq by simp
  show "fieldType (fieldStore s' fi) = fieldType (fieldStore s fi)" using fr eq by simp
  show "reverseFK (fieldStore s' fi) = reverseFK (fieldStore s fi)" using fr eq by simp
  show "stored (fieldStore s' fi) = (stored (fieldStore s fi) \<and> compute (fieldStore s fi) \<noteq> [])"
    using eq cr by (simp add: updField_def isComputedField_def)
  show "\<And>c. c \<noteq> fc \<Longrightarrow> collStore s' c = collStore s c" using fr eq by simp
  show "collStore s' fc = classify (fieldStore s' fi) fi
        ((collStore s fc)\<lparr>registryByName := AList.update (name (fieldStore s' fi)) fi (registryByName (collStore s fc)),
                   registryByJSON := AList.update (json (fieldStore s' fi)) fi (registryByJSON (collStore s fc))\<rparr>)"
    using fr eq by simp
qed

lemma classified_new: "classification {} s newFieldsCollection"
  by (simp add: classification_def newFieldsCollection_def)

lemma register_classification:
  assumes inv: "classification R s (collStore s fc)" and reg: "register fc fi s = (Inr u, s')"
  shows "classification (insert fi R) s' (collStore s' fc)"
proof -
  note e = register_effect[OF reg]
  let ?c = "collStore s fc" and ?f = "fieldStore s fi" and ?f' = "fieldStore s' fi"
  have css: "set (computedStoredFields (collStore s' fc)) =
      set (computedStoredFields ?c) \<union> (if compute ?f' \<noteq> [] \<and> stored ?f' then {fi} else {})"
    and cf: "set (computedFields (collStore s' fc)) =
      set (computedFields ?c) \<union> (if compute ?f' \<noteq> [] \<and> \<not> stored ?f' then {fi} else {})"
    and rf: "set (relatedFields (collStore s' fc)) =
      set (relatedFields ?c) \<union> (if relatedPath ?f' \<noteq> [] then {fi} else {})"
    by (simp_all add: e(11) classify_slices)
  have old: "\<And>a. a \<in> R \<Longrightarrow> classified s ?c a" and sub: "set (computedStoredFields ?c) \<union> set (computedFields ?c) \<union> set (relatedFields ?c) \<subseteq> R"
    and dis: "set (computedStoredFields ?c) \<inter> set (computedFields ?c) = {}"
    using inv by (auto simp: classification_def)
  have fi_in: "fi \<in> set (computedStoredFields ?c) \<Longrightarrow> compute ?f \<noteq> [] \<and> stored ?f"
    "fi \<in> set (computedFields ?c) \<Longrightarrow> compute ?f \<noteq> [] \<and> \<not> stored ?f"
    "fi \<in> set (relatedFields ?c) \<Longrightarrow> relatedPath ?f \<noteq> []"
    using old[of fi] sub by (auto simp: classified_def Let_def)
  have new: "classified s' (collStore s' fc) fi"
    unfolding classified_def Let_def css cf rf using fi_in e(5,6,9) by auto
  have others: "classified s' (collStore s' fc) a" if "a \<in> R" "a \<noteq> fi" for a
    using old[OF that(1)] e(2)[OF that(2)] that(2)
    unfolding classified_def Let_def css cf rf by auto
  have dis': "set (computedStoredFields (collStore s' fc)) \<inter> set (computedFields (collStore s' fc)) = {}"
    unfolding css cf using dis fi_in e(5,9) by auto
  have sub': "set (computedStoredFields (collStore s' fc)) \<union> set (computedFields (collStore s' fc)) \<union> set (relatedFields (collStore s' fc)) \<subseteq> insert fi R"
    unfolding css cf rf using sub by auto
  show ?thesis unfolding classification_def using new others dis' sub' by blast
qed

lemma registerAll_classification:
  assumes "classification R s (collStore s fc)" and "registerAll fc fis s = (Inr u, s')"
  shows "classification (R \<union> set fis) s' (collStore s' fc)"
  using assms
proof (induction fis arbitrary: R s)
  case Nil
  then show ?case by simp
next
  case (Cons fi fis)
  from Cons.prems(2) obtain u1 s1 where r: "register fc fi s = (Inr u1, s1)"
    and rest: "registerAll fc fis s1 = (Inr u, s')"
    by (auto split: prod.splits sum.splits)
  from Cons.IH[OF register_classification[OF Cons.prems(1) r] rest]
  show ?case by simp
qed


lemma set_update_subset: "set (AList.update k v al) \<subseteq> insert (k, v) (set al)"
  by (induction al) auto

lemma update_has: "(k, v) \<in> set (AList.update k v al)"
  by (induction al) auto

lemma keysNamed_new: "keysNamed {} s newFieldsCollection"
  by (simp add: keysNamed_def newFieldsCollection_def)

lemma register_keysNamed:
  assumes inv: "keysNamed R s (collStore s fc)" and reg: "register fc fi s = (Inr u, s')"
  shows "keysNamed (insert fi R) s' (collStore s' fc)"
proof -
  note e = register_effect[OF reg]
  let ?c = "collStore s fc" and ?f' = "fieldStore s' fi"
  have bn: "registryByName (collStore s' fc) = AList.update (name ?f') fi (registryByName ?c)"
    and bj: "registryByJSON (collStore s' fc) = AList.update (json ?f') fi (registryByJSON ?c)"
    by (simp_all add: e(11))
  have nm: "name (fieldStore s' a) = name (fieldStore s a)"
    and js: "json (fieldStore s' a) = json (fieldStore s a)" for a
    using e(2)[of a] e(3,4) by (cases "a = fi"; simp)+
  have i1: "\<And>k a. (k, a) \<in> set (registryByName ?c) \<Longrightarrow> a \<in> R \<and> name (fieldStore s a) = k"
    and i2: "\<And>k a. (k, a) \<in> set (registryByJSON ?c) \<Longrightarrow> a \<in> R \<and> json (fieldStore s a) = k"
    and i3: "\<And>a. a \<in> R \<Longrightarrow> name (fieldStore s a) \<in> fst ` set (registryByName ?c) \<and>
                json (fieldStore s a) \<in> fst ` set (registryByJSON ?c)"
    using inv by (auto simp: keysNamed_def)
  have g1: "a \<in> insert fi R \<and> name (fieldStore s' a) = k"
    if "(k, a) \<in> set (registryByName (collStore s' fc))" for k a
    using that set_update_subset[of "name ?f'" fi "registryByName ?c"] i1 nm
    unfolding bn by auto
  have g2: "a \<in> insert fi R \<and> json (fieldStore s' a) = k"
    if "(k, a) \<in> set (registryByJSON (collStore s' fc))" for k a
    using that set_update_subset[of "json ?f'" fi "registryByJSON ?c"] i2 js
    unfolding bj by auto
  have g3: "name (fieldStore s' a) \<in> fst ` set (registryByName (collStore s' fc)) \<and>
            json (fieldStore s' a) \<in> fst ` set (registryByJSON (collStore s' fc))"
    if "a \<in> insert fi R" for a
    using that i3[of a] nm[of a] js[of a] unfolding bn bj dom_update by auto
  show ?thesis unfolding keysNamed_def using g1 g2 g3 by blast
qed

lemma registerAll_keysNamed:
  assumes "keysNamed R s (collStore s fc)" and "registerAll fc fis s = (Inr u, s')"
  shows "keysNamed (R \<union> set fis) s' (collStore s' fc)"
  using assms
proof (induction fis arbitrary: R s)
  case Nil
  then show ?case by simp
next
  case (Cons fi fis)
  from Cons.prems(2) obtain u1 s1 where r: "register fc fi s = (Inr u1, s1)"
    and rest: "registerAll fc fis s1 = (Inr u, s')"
    by (auto split: prod.splits sum.splits)
  from Cons.IH[OF register_keysNamed[OF Cons.prems(1) r] rest]
  show ?case by simp
qed

lemma MustGet_maps:
  "MustGet c n = Inr fi \<longleftrightarrow>
     map_of (registryByName c) n = Some fi \<or>
     (map_of (registryByName c) n = None \<and> map_of (registryByJSON c) n = Some fi)"
  by (auto simp: MustGet_def get_def split: option.splits)

lemma MustGet_panics:
  "MustGet c n = Inl e \<longleftrightarrow>
     e = Panic ''Unknown field in model'' \<and>
     n \<notin> fst ` set (registryByName c) \<and> n \<notin> fst ` set (registryByJSON c)"
  by (auto simp: MustGet_def get_def dom_map_of_conv_image_fst[symmetric] domIff
      split: option.splits)

section \<open>Lookup by name\<close>

lemma MustGet_registerAll:
  assumes new: "collStore s fc = newFieldsCollection"
    and reg: "registerAll fc fis s = (Inr u, s')"
  shows "(\<forall>fi. MustGet (collStore s' fc) n = Inr fi \<longleftrightarrow>
            map_of (registryByName (collStore s' fc)) n = Some fi \<or>
            (map_of (registryByName (collStore s' fc)) n = None \<and>
             map_of (registryByJSON (collStore s' fc)) n = Some fi)) \<and>
         ((\<exists>fi. MustGet (collStore s' fc) n = Inr fi) \<longleftrightarrow>
            (\<exists>fi\<in>set fis. name (fieldStore s' fi) = n \<or> json (fieldStore s' fi) = n)) \<and>
         (MustGet (collStore s' fc) n = Inl (Panic ''Unknown field in model'') \<longleftrightarrow>
            \<not> (\<exists>fi\<in>set fis. name (fieldStore s' fi) = n \<or> json (fieldStore s' fi) = n)) \<and>
         (\<forall>fi. MustGet (collStore s' fc) n = Inr fi \<longrightarrow>
            fi \<in> set fis \<and> (name (fieldStore s' fi) = n \<or> json (fieldStore s' fi) = n)) \<and>
         ((\<exists>fi\<in>set fis. name (fieldStore s' fi) = n) \<longrightarrow>
            (\<exists>fi. MustGet (collStore s' fc) n = Inr fi \<and> name (fieldStore s' fi) = n))"
proof -
  let ?c = "collStore s' fc"
  have "keysNamed {} s (collStore s fc)" using new keysNamed_new by simp
  from registerAll_keysNamed[OF this reg] have k: "keysNamed (set fis) s' ?c" by simp
  have k1: "\<And>k a. (k, a) \<in> set (registryByName ?c) \<Longrightarrow> a \<in> set fis \<and> name (fieldStore s' a) = k"
    and k2: "\<And>k a. (k, a) \<in> set (registryByJSON ?c) \<Longrightarrow> a \<in> set fis \<and> json (fieldStore s' a) = k"
    and k3: "\<And>a. a \<in> set fis \<Longrightarrow> name (fieldStore s' a) \<in> fst ` set (registryByName ?c) \<and>
                json (fieldStore s' a) \<in> fst ` set (registryByJSON ?c)"
    using k by (auto simp: keysNamed_def)
  have sound: "fi \<in> set fis \<and> (name (fieldStore s' fi) = n \<or> json (fieldStore s' fi) = n)"
    if "MustGet ?c n = Inr fi" for fi
    using that k1[of n fi] k2[of n fi] by (auto simp: MustGet_maps dest: map_of_SomeD)
  have byname: "\<exists>fi. MustGet ?c n = Inr fi \<and> name (fieldStore s' fi) = n"
    if "a \<in> set fis" "name (fieldStore s' a) = n" for a
  proof -
    from k3[OF that(1)] that(2) have "n \<in> fst ` set (registryByName ?c)" by auto
    then obtain fi where m: "map_of (registryByName ?c) n = Some fi"
      by (cases "map_of (registryByName ?c) n") (auto simp: map_of_eq_None_iff)
    from map_of_SomeD[OF m] k1 have "name (fieldStore s' fi) = n" by blast
    with m show ?thesis by (auto simp: MustGet_maps)
  qed
  have byjson: "\<exists>fi. MustGet ?c n = Inr fi"
    if "a \<in> set fis" "json (fieldStore s' a) = n" for a
  proof -
    from k3[OF that(1)] that(2) have "n \<in> fst ` set (registryByJSON ?c)" by auto
    then have "\<And>e. MustGet ?c n \<noteq> Inl e"
      by (simp add: MustGet_panics)
    then show ?thesis by (cases "MustGet ?c n") auto
  qed
  have found: "(\<exists>fi. MustGet ?c n = Inr fi) \<longleftrightarrow>
            (\<exists>fi\<in>set fis. name (fieldStore s' fi) = n \<or> json (fieldStore s' fi) = n)"
    using sound byname byjson by blast
  have panics: "MustGet ?c n = Inl (Panic ''Unknown field in model'') \<longleftrightarrow>
            \<not> (\<exists>fi. MustGet ?c n = Inr fi)"
  proof (cases "MustGet ?c n")
    case (Inl e)
    then show ?thesis using MustGet_panics[of ?c n e] by auto
  next
    case (Inr fi)
    then show ?thesis by auto
  qed
  show ?thesis using MustGet_maps[of ?c n] found panics sound byname by blast
qed

text \<open>
  Claim C8. For every collection, the lookup of \<open>MustGet\<close> takes the registry by Go
  name first and the registry by JSON name only when the Go name is unknown, and
  \<open>MustGet\<close> panics exactly when \<open>n\<close> is a key of neither registry. In a collection
  populated by \<open>register\<close> calls on a new collection the keys are the names of the
  registered fields: \<open>MustGet\<close> finds a field iff \<open>n\<close> is the Go name or the JSON name
  of a registered field, panics ("Unknown field in model") exactly when \<open>n\<close> is
  neither, returns registered fields named \<open>n\<close> only, and returns a field whose Go name
  is \<open>n\<close> whenever there is one.
\<close>

theorem MustGet_registered:
  "(\<forall>fi. MustGet c n = Inr fi \<longleftrightarrow>
      map_of (registryByName c) n = Some fi \<or>
      (map_of (registryByName c) n = None \<and> map_of (registryByJSON c) n = Some fi)) \<and>
   ((\<exists>e. MustGet c n = Inl e) \<longleftrightarrow>
      n \<notin> fst ` set (registryByName c) \<and> n \<notin> fst ` set (registryByJSON c)) \<and>
   (collStore s fc = newFieldsCollection \<and> registerAll fc fis s = (Inr u, s') \<longrightarrow>
      ((\<exists>fi. MustGet (collStore s' fc) n = Inr fi) \<longleftrightarrow>
         (\<exists>fi\<in>set fis. name (fieldStore s' fi) = n \<or> json (fieldStore s' fi) = n)) \<and>
      (MustGet (collStore s' fc) n = Inl (Panic ''Unknown field in model'') \<longleftrightarrow>
         \<not> (\<exists>fi\<in>set fis. name (fieldStore s' fi) = n \<or> json (fieldStore s' fi) = n)) \<and>
      (\<forall>fi. MustGet (collStore s' fc) n = Inr fi \<longrightarrow>
         fi \<in> set fis \<and> (name (fieldStore s' fi) = n \<or> json (fieldStore s' fi) = n)) \<and>
      ((\<exists>fi\<in>set fis. name (fieldStore s' fi) = n) \<longrightarrow>
         (\<exists>fi. MustGet (collStore s' fc) n = Inr fi \<and> name (fieldStore s' fi) = n)))"
proof (intro conjI impI)
  show "\<forall>fi. MustGet c n = Inr fi \<longleftrightarrow>
      map_of (registryByName c) n = Some fi \<or>
      (map_of (registryByName c) n = None \<and> map_of (registryByJSON c) n = Some fi)"
    by (simp add: MustGet_maps)
  show "(\<exists>e. MustGet c n = Inl e) \<longleftrightarrow>
      n \<notin> fst ` set (registryByName c) \<and> n \<notin> fst ` set (registryByJSON c)"
    by (simp add: MustGet_panics)
next
  assume "collStore s fc = newFieldsCollection \<and> registerAll fc fis s = (Inr u, s')"
  then have a: "collStore s fc = newFieldsCollection" "registerAll fc fis s = (Inr u, s')"
    by simp_all
  note r = MustGet_registerAll[OF a, of n]
  show "(\<exists>fi. MustGet (collStore s' fc) n = Inr fi) \<longleftrightarrow>
         (\<exists>fi\<in>set fis. name (fieldStore s' fi) = n \<or> json (fieldStore s' fi) = n)"
    using r by blast
  show "MustGet (collStore s' fc) n = Inl (Panic ''Unknown field in model'') \<longleftrightarrow>
         \<not> (\<exists>fi\<in>set fis. name (fieldStore s' fi) = n \<or> json (fieldStore s' fi) = n)"
    using r by blast
  show "\<forall>fi. MustGet (collStore s' fc) n = Inr fi \<longrightarrow>
         fi \<in> set fis \<and> (name (fieldStore s' fi) = n \<or> json (fieldStore s' fi) = n)"
    using r by blast
  assume "\<exists>fi\<in>set fis. name (fieldStore s' fi) = n"
  then show "\<exists>fi. MustGet (collStore s' fc) n = Inr fi \<and> name (fieldStore s' fi) = n"
    using r by blast
qed

lemmas ex_defs = exStore_def zeroState_def zeroField_def zeroModel_def exModel_def
  newFieldsCollection_def ageField_def nameField_def profileNameField_def postsField_def

lemmas check_defs = checkFieldInfo_def seq_def checkReverseFK_def checkEmbed_def
  checkRelationModel_def checkStored_def logPanic_def logArgs_def updField_def
  IsReverseRelationType_def IsFKRelationType_def isComputedField_def Let_def

lemmas register_defs = register_def store_def classify_def updColl_def add_def
  isRelatedField_def

section \<open>Stored fields have a compute method\<close>

text \<open>
  Claim C7. When \<open>checkFieldInfo\<close> returns, a field whose stored flag is true has a
  non-empty compute method name: the flag of a field without a compute method has been
  reset.
\<close>

theorem checkFieldInfo_stored_computed:
  assumes "checkFieldInfo fi s = (Inr u, s')" and "stored (fieldStore s' fi)"
  shows "compute (fieldStore s' fi) \<noteq> []"
  using assms(2) checkFieldInfo_Inr[OF assms(1)]
  by (simp add: updField_def isComputedField_def)

theorem checkFieldInfo_stored_computed_witness:
  "checkFieldInfo 0 (exStore [ageField]) = (Inr (), exStore [ageField]) \<and>
   stored (fieldStore (exStore [ageField]) 0) \<and>
   compute (fieldStore (exStore [ageField]) 0) \<noteq> []"
  using checkFieldInfo_stored_computed[of 0 "exStore [ageField]" "()" "exStore [ageField]"]
  by (simp add: ex_defs check_defs)

section \<open>Related fields and the store flag\<close>

text \<open>
  Claim C3, as the code has it. A related field without a compute method that is
  registered with the store flag set does not stay stored: when \<open>checkFieldInfo\<close>
  returns, its stored flag is false and \<open>isStored\<close> reports false.
\<close>

theorem related_store_cleared:
  assumes "relatedPath (fieldStore s fi) \<noteq> []" and "compute (fieldStore s fi) = []"
    and "stored (fieldStore s fi)" and "checkFieldInfo fi s = (Inr u, s')"
  shows "\<not> stored (fieldStore s' fi) \<and> \<not> isStored (fieldStore s' fi)"
  using assms(1,2,3) checkFieldInfo_Inr[OF assms(4)]
  by (simp add: updField_def isComputedField_def isStored_def isRelatedField_def)

theorem related_store_cleared_witness:
  "relatedPath (fieldStore (exStore [profileNameField]) 0) \<noteq> [] \<and>
   compute (fieldStore (exStore [profileNameField]) 0) = [] \<and>
   stored (fieldStore (exStore [profileNameField]) 0) \<and>
   fst (checkFieldInfo 0 (exStore [profileNameField])) = Inr () \<and>
   \<not> stored (fieldStore (snd (checkFieldInfo 0 (exStore [profileNameField]))) 0) \<and>
   \<not> isStored (fieldStore (snd (checkFieldInfo 0 (exStore [profileNameField]))) 0)"
  using related_store_cleared[of "exStore [profileNameField]" 0 "()"
      "snd (checkFieldInfo 0 (exStore [profileNameField]))"]
  by (simp add: ex_defs check_defs isStored_def isRelatedField_def IsNonStoredRelationType_def)

text \<open>
  The claim as stated fails on the related field \<open>ProfileName\<close> (path
  \<open>Profile.Name\<close>, store flag set, no compute method) of the model \<open>User\<close>: the
  check returns, and the field is no longer stored.
\<close>

theorem related_store_kept_counterexample:
  "isRelatedField profileNameField \<and> \<not> isComputedField profileNameField \<and>
   stored profileNameField \<and>
   checkFieldInfo 0 (exStore [profileNameField]) =
     (Inr (), exStore [profileNameField\<lparr>stored := False\<rparr>]) \<and>
   \<not> isStored (fieldStore (exStore [profileNameField\<lparr>stored := False\<rparr>]) 0)"
  by (simp add: ex_defs check_defs isStored_def isRelatedField_def IsNonStoredRelationType_def
      fun_eq_iff)

section \<open>Reverse relations name their foreign key\<close>

lemma registerAll_reverse:
  assumes "registerAll fc fis s = (Inr u, s')"
    and "\<forall>a\<in>R. \<not> (IsReverseRelationType (fieldType (fieldStore s a)) \<and> reverseFK (fieldStore s a) = [])"
  shows "\<forall>a\<in>R \<union> set fis. \<not> (IsReverseRelationType (fieldType (fieldStore s' a)) \<and> reverseFK (fieldStore s' a) = [])"
  using assms
proof (induction fis arbitrary: R s)
  case Nil
  then show ?case by simp
next
  case (Cons fi fis)
  from Cons.prems(1) obtain u1 s1 where r: "register fc fi s = (Inr u1, s1)"
    and rest: "registerAll fc fis s1 = (Inr u, s')"
    by (auto split: prod.splits sum.splits)
  note e = register_effect[OF r]
  from register_Inr[OF r] obtain s0 where c: "checkFieldInfo fi s = (Inr (), s0)" by blast
  have ok: "\<not> (IsReverseRelationType (fieldType (fieldStore s fi)) \<and> reverseFK (fieldStore s fi) = [])"
    using c checkFieldInfo_reverse[of s fi] by auto
  have same: "fieldType (fieldStore s1 a) = fieldType (fieldStore s a) \<and>
      reverseFK (fieldStore s1 a) = reverseFK (fieldStore s a)" for a
    using e(2)[of a] e(7,8) by (cases "a = fi") simp_all
  have "\<forall>a\<in>insert fi R. \<not> (IsReverseRelationType (fieldType (fieldStore s1 a)) \<and> reverseFK (fieldStore s1 a) = [])"
    using ok Cons.prems(2) same by auto
  from Cons.IH[OF rest this] show ?case by simp
qed

text \<open>
  Claim C5. A field of type \<open>one2many\<close> or \<open>rev2one\<close> with an empty \<open>reverseFK\<close>
  makes \<open>checkFieldInfo\<close> panic before it writes anything, and with it \<open>register\<close>
  and \<open>add\<close>; so after the \<open>register\<close> calls of a bootstrap have all returned, every
  registered field of a reverse-relation type names its foreign key.
\<close>

theorem reverse_relation_needs_fk:
  "(fieldType (fieldStore s fi) \<in> {One2Many, Rev2One} \<and> reverseFK (fieldStore s fi) = [] \<longrightarrow>
      checkFieldInfo fi s =
        (Inl (logPanic (fieldStore s fi)
           ''one2many and rev2one fields must define an ReverseFK parameter''), s) \<and>
      register fc fi s = checkFieldInfo fi s \<and>
      isl (fst (add fc fi s)) \<and> snd (add fc fi s) = s) \<and>
   (registerAll fc fis s = (Inr u, s') \<longrightarrow>
      (\<forall>a\<in>set fis. fieldType (fieldStore s' a) \<in> {One2Many, Rev2One} \<longrightarrow>
         reverseFK (fieldStore s' a) \<noteq> []))"
proof (intro conjI impI)
  assume a: "fieldType (fieldStore s fi) \<in> {One2Many, Rev2One} \<and> reverseFK (fieldStore s fi) = []"
  then have r: "IsReverseRelationType (fieldType (fieldStore s fi))"
    by (auto simp: IsReverseRelationType_def)
  from checkFieldInfo_reverse[OF r] a
  show c: "checkFieldInfo fi s =
        (Inl (logPanic (fieldStore s fi)
           ''one2many and rev2one fields must define an ReverseFK parameter''), s)" by simp
  show g: "register fc fi s = checkFieldInfo fi s" by (simp add: register_def seq_def c)
  show "isl (fst (add fc fi s))" by (simp add: add_def Let_def g c)
  show "snd (add fc fi s) = s" by (simp add: add_def Let_def g c)
next
  assume "registerAll fc fis s = (Inr u, s')"
  from registerAll_reverse[OF this, of "{}"]
  show "\<forall>a\<in>set fis. fieldType (fieldStore s' a) \<in> {One2Many, Rev2One} \<longrightarrow>
         reverseFK (fieldStore s' a) \<noteq> []"
    by (auto simp: IsReverseRelationType_def)
qed

theorem reverse_relation_needs_fk_witness:
  "fieldType (fieldStore (exStore [postsField]) 0) \<in> {One2Many, Rev2One} \<and>
   reverseFK (fieldStore (exStore [postsField]) 0) = [] \<and>
   checkFieldInfo 0 (exStore [postsField]) =
     (Inl (Panic ''one2many and rev2one fields must define an ReverseFK parameter''),
      exStore [postsField]) \<and>
   register 0 0 (exStore [postsField]) = checkFieldInfo 0 (exStore [postsField]) \<and>
   isl (fst (add 0 0 (exStore [postsField]))) \<and>
   snd (add 0 0 (exStore [postsField])) = exStore [postsField] \<and>
   fst (registerAll 0 [0] (exStore [postsField\<lparr>reverseFK := ''User''\<rparr>])) = Inr () \<and>
   fieldType (fieldStore (snd (registerAll 0 [0] (exStore [postsField\<lparr>reverseFK := ''User''\<rparr>]))) 0)
     = One2Many \<and>
   reverseFK (fieldStore (snd (registerAll 0 [0] (exStore [postsField\<lparr>reverseFK := ''User''\<rparr>]))) 0)
     = ''User''"
  using reverse_relation_needs_fk[where s = "exStore [postsField]" and fi = 0 and fc = 0]
    reverse_relation_needs_fk[where s = "exStore [postsField\<lparr>reverseFK := ''User''\<rparr>]"
      and fc = 0 and fis = "[0]" and u = "()"
      and s' = "snd (registerAll 0 [0] (exStore [postsField\<lparr>reverseFK := ''User''\<rparr>]))"]
  by (simp add: ex_defs check_defs register_defs)

theorem MustGet_registered_witness:
  "collStore (exStore [ageField, nameField]) 0 = newFieldsCollection \<and>
   fst (registerAll 0 [0, 1] (exStore [ageField, nameField])) = Inr () \<and>
   MustGet (collStore (snd (registerAll 0 [0, 1] (exStore [ageField, nameField]))) 0) ''age''
     = Inr 0 \<and>
   MustGet (collStore (snd (registerAll 0 [0, 1] (exStore [ageField, nameField]))) 0) ''Name''
     = Inr 1 \<and>
   MustGet (collStore (snd (registerAll 0 [0, 1] (exStore [ageField, nameField]))) 0) ''Email''
     = Inl (Panic ''Unknown field in model'')"
  using MustGet_registered[where s = "exStore [ageField, nameField]" and fc = 0
      and fis = "[0, 1]" and u = "()"
      and s' = "snd (registerAll 0 [0, 1] (exStore [ageField, nameField]))" and n = "''age''"
      and c = "collStore (snd (registerAll 0 [0, 1] (exStore [ageField, nameField]))) 0"]
  by (simp add: ex_defs check_defs register_defs MustGet_def get_def)

section \<open>Adding a field\<close>

lemma add_age: "add 0 0 (exStore [ageField, nameField]) = (Inr (), exRegistered)"
  by (simp add: ex_defs check_defs register_defs exRegistered_def fun_eq_iff)

lemma add_age_again:
  "add 0 0 exRegistered = (Inl (Panic ''Trying to add already existing field''), exRegistered)"
  by (simp add: ex_defs check_defs register_defs exRegistered_def)

text \<open>
  Claim C9, as the code has it. \<open>add\<close> of a field whose name is already a key of the
  registry by name panics and leaves the whole store, the collection included, as it
  was. \<open>add\<close> of a field with a fresh name that passes \<open>checkFieldInfo\<close> registers it
  under its Go name and under its JSON name; when \<open>checkFieldInfo\<close> panics, so does
  \<open>add\<close>, and no collection has changed.
\<close>

theorem add_registers:
  "(map_of (registryByName (collStore s fc)) (name (fieldStore s fi)) \<noteq> None \<longrightarrow>
      add fc fi s =
        (Inl (logPanic (fieldStore s fi) ''Trying to add already existing field''), s)) \<and>
   (map_of (registryByName (collStore s fc)) (name (fieldStore s fi)) = None \<and>
    checkFieldInfo fi s = (Inr u, s1) \<longrightarrow>
      (\<exists>s'. add fc fi s = (Inr (), s') \<and>
         map_of (registryByName (collStore s' fc)) (name (fieldStore s' fi)) = Some fi \<and>
         map_of (registryByJSON (collStore s' fc)) (json (fieldStore s' fi)) = Some fi)) \<and>
   (map_of (registryByName (collStore s fc)) (name (fieldStore s fi)) = None \<and>
    checkFieldInfo fi s = (Inl e, s1) \<longrightarrow>
      add fc fi s = (Inl e, s1) \<and> collStore s1 = collStore s)"
proof (intro conjI impI)
  assume "map_of (registryByName (collStore s fc)) (name (fieldStore s fi)) \<noteq> None"
  then show "add fc fi s =
        (Inl (logPanic (fieldStore s fi) ''Trying to add already existing field''), s)"
    by (simp add: add_def Let_def)
next
  assume a: "map_of (registryByName (collStore s fc)) (name (fieldStore s fi)) = None \<and>
    checkFieldInfo fi s = (Inr u, s1)"
  obtain r s' where st: "store fc fi s1 = (r, s')" by (cases "store fc fi s1")
  from store_eq[OF st] have r: "r = Inr ()" by simp
  have reg: "register fc fi s = (Inr (), s')"
    using a st r by (simp add: register_def seq_def)
  note e = register_effect[OF reg]
  have "add fc fi s = (Inr (), s')" using a reg by (simp add: add_def Let_def)
  moreover have "map_of (registryByName (collStore s' fc)) (name (fieldStore s' fi)) = Some fi"
    by (simp add: e(11) update_conv')
  moreover have "map_of (registryByJSON (collStore s' fc)) (json (fieldStore s' fi)) = Some fi"
    by (simp add: e(11) update_conv')
  ultimately show "\<exists>s'. add fc fi s = (Inr (), s') \<and>
         map_of (registryByName (collStore s' fc)) (name (fieldStore s' fi)) = Some fi \<and>
         map_of (registryByJSON (collStore s' fc)) (json (fieldStore s' fi)) = Some fi" by blast
next
  assume a: "map_of (registryByName (collStore s fc)) (name (fieldStore s fi)) = None \<and>
    checkFieldInfo fi s = (Inl e, s1)"
  then show "add fc fi s = (Inl e, s1)" by (simp add: add_def Let_def register_def seq_def)
  from a checkFieldInfo_frame[of fi s "Inl e" s1] show "collStore s1 = collStore s" by simp
qed

theorem add_registers_witness:
  "map_of (registryByName (collStore exRegistered 0)) (name (fieldStore exRegistered 0)) \<noteq> None \<and>
   add 0 0 exRegistered =
     (Inl (Panic ''Trying to add already existing field''), exRegistered) \<and>
   map_of (registryByName (collStore (exStore [ageField, nameField]) 0))
     (name (fieldStore (exStore [ageField, nameField]) 0)) = None \<and>
   checkFieldInfo 0 (exStore [ageField, nameField]) = (Inr (), exStore [ageField, nameField]) \<and>
   add 0 0 (exStore [ageField, nameField]) = (Inr (), exRegistered) \<and>
   map_of (registryByName (collStore exRegistered 0)) ''Age'' = Some 0 \<and>
   map_of (registryByJSON (collStore exRegistered 0)) ''age'' = Some 0 \<and>
   map_of (registryByName (collStore (exStore [postsField]) 0))
     (name (fieldStore (exStore [postsField]) 0)) = None \<and>
   checkFieldInfo 0 (exStore [postsField]) =
     (Inl (Panic ''one2many and rev2one fields must define an ReverseFK parameter''),
      exStore [postsField]) \<and>
   add 0 0 (exStore [postsField]) = checkFieldInfo 0 (exStore [postsField])"
  using add_registers[of exRegistered 0 0]
    add_registers[of "exStore [ageField, nameField]" 0 0 "()" "exStore [ageField, nameField]"]
    add_registers[where s = "exStore [postsField]" and fc = 0 and fi = 0
      and e = "Panic ''one2many and rev2one fields must define an ReverseFK parameter''"
      and ?s1.0 = "exStore [postsField]"]
    add_age add_age_again
  by (simp add: ex_defs check_defs exRegistered_def)

text \<open>
  The claim as stated fails on the one2many field \<open>Posts\<close> without \<open>ReverseFK\<close>:
  its name is fresh, \<open>add\<close> panics in the validation, and the field is registered
  under neither name.
\<close>

theorem add_fresh_name_counterexample:
  "map_of (registryByName (collStore (exStore [postsField]) 0))
     (name (fieldStore (exStore [postsField]) 0)) = None \<and>
   add 0 0 (exStore [postsField]) =
     (Inl (Panic ''one2many and rev2one fields must define an ReverseFK parameter''),
      exStore [postsField]) \<and>
   get (collStore (exStore [postsField]) 0) ''Posts'' = None \<and>
   get (collStore (exStore [postsField]) 0) ''posts_ids'' = None"
  by (simp add: ex_defs check_defs register_defs get_def)

section \<open>The classification of the registered fields\<close>

text \<open>
  Claim C10. The \<open>register\<close> calls keep the classification invariant: if it holds of
  the fields \<open>R\<close> registered so far, it holds of \<open>R\<close> and the newly registered fields
  after any number of calls that return. A registered field is in the slice of the
  stored computed fields iff its compute name is non-empty and its stored flag is true,
  in the slice of the computed fields iff its compute name is non-empty and its stored
  flag is false, in the slice of the related fields iff its related path is non-empty,
  and no field is in both computed slices.
\<close>

theorem register_keeps_classification:
  assumes "classification R s (collStore s fc)" and "registerAll fc fis s = (Inr u, s')"
  shows "classification (R \<union> set fis) s' (collStore s' fc)"
  using assms by (rule registerAll_classification)

theorem register_keeps_classification_witness:
  "classification {} (exStore [ageField, profileNameField]) 
      (collStore (exStore [ageField, profileNameField]) 0) \<and>
   fst (registerAll 0 [0, 1] (exStore [ageField, profileNameField])) = Inr () \<and>
   classification {0, 1}
     (snd (registerAll 0 [0, 1] (exStore [ageField, profileNameField])))
     (collStore (snd (registerAll 0 [0, 1] (exStore [ageField, profileNameField]))) 0) \<and>
   computedStoredFields
     (collStore (snd (registerAll 0 [0, 1] (exStore [ageField, profileNameField]))) 0)
     = [0] \<and>
   relatedFields
     (collStore (snd (registerAll 0 [0, 1] (exStore [ageField, profileNameField]))) 0)
     = [1]"
  using register_keeps_classification[of "{}" "exStore [ageField, profileNameField]" 0
      "[0, 1]" "()"
      "snd (registerAll 0 [0, 1] (exStore [ageField, profileNameField]))"]
  by (simp add: ex_defs check_defs register_defs classification_def classified_def)

section \<open>The signature of compute methods\<close>

lemma checkMethTypeMsg_empty:
  "checkMethTypeMsg impl t st = [] \<longleftrightarrow> computeSignatureOK impl t st"
  by (auto simp: checkMethTypeMsg_def computeSignatureOK_def split: list.splits)

lemma checkMethType_None:
  "checkMethType impl meth st = None \<longleftrightarrow> computeSignatureOK impl (methodType meth) st"
  by (auto simp: checkMethType_def Let_def checkMethTypeMsg_empty split: option.splits)

lemma checkMethType_Some:
  "checkMethType impl meth st = Some e \<Longrightarrow> \<not> computeSignatureOK impl (methodType meth) st"
  using checkMethType_None[of impl meth st] by simp

lemma checkFieldsLoop_None:
  "checkFieldsLoop impl s mi st fis = None \<longleftrightarrow>
     (\<forall>fi\<in>set fis. \<exists>meth.
        map_of (methods (modelStore s mi)) (compute (fieldStore s fi)) = Some meth \<and>
        computeSignatureOK impl (methodType meth) st)"
proof (induction fis)
  case Nil
  then show ?case by simp
next
  case (Cons fi fis)
  show ?case
  proof (cases "map_of (methods (modelStore s mi)) (compute (fieldStore s fi))")
    case None
    then show ?thesis by (simp add: Methods_MustGet_def)
  next
    case (Some meth)
    show ?thesis
    proof (cases "checkMethType impl meth st")
      case None
      then show ?thesis using Some Cons.IH
        by (simp add: Methods_MustGet_def checkMethType_None[symmetric])
    next
      case (Some e)
      with checkMethType_Some[OF Some] \<open>map_of (methods (modelStore s mi)) (compute (fieldStore s fi)) = Some meth\<close>
      show ?thesis by (simp add: Methods_MustGet_def)
    qed
  qed
qed

lemma checkModelsLoop_None:
  "checkModelsLoop impl s ms = None \<longleftrightarrow>
     (\<forall>(mName, mi)\<in>set ms.
        (\<forall>fi\<in>set (computedFields (collStore s (mfields (modelStore s mi)))). \<exists>meth.
           map_of (methods (modelStore s mi)) (compute (fieldStore s fi)) = Some meth \<and>
           computeSignatureOK impl (methodType meth) False) \<and>
        (\<forall>fi\<in>set (computedStoredFields (collStore s (mfields (modelStore s mi)))). \<exists>meth.
           map_of (methods (modelStore s mi)) (compute (fieldStore s fi)) = Some meth \<and>
           computeSignatureOK impl (methodType meth) True))"
proof (induction ms)
  case Nil
  then show ?case by simp
next
  case (Cons m ms)
  obtain mName mi where m: "m = (mName, mi)" by (cases m)
  let ?A = "checkFieldsLoop impl s mi False
             (computedFields (collStore s (mfields (modelStore s mi))))"
  let ?B = "checkFieldsLoop impl s mi True
             (computedStoredFields (collStore s (mfields (modelStore s mi))))"
  have "checkModelsLoop impl s (m # ms) = None \<longleftrightarrow>
      ?A = None \<and> ?B = None \<and> checkModelsLoop impl s ms = None"
    unfolding m by (simp split: option.splits)
  then show ?case unfolding m using Cons.IH
    by (simp add: checkFieldsLoop_None)
qed

text \<open>
  Claim C4. The closure \<open>checkMethType\<close> lets a compute method pass iff it takes the
  receiver only, returns one or two values of which the first implements
  \<open>FieldMapper\<close>, returns two values when the field is stored, and its second return
  value, when there is one, has the type \<open>[]FieldNamer\<close>. (For a field that is not
  stored the second return value is not asked for, and accepted with that type.)
  \<open>checkComputeMethodsSignature\<close> returns without a panic iff the compute method of
  every field of the computed slices of every registered model exists and passes, with
  the stored flag true for the slice of the stored computed fields.
\<close>

theorem compute_signature_checked:
  "(checkMethType impl meth st = None \<longleftrightarrow>
      length (ins (methodType meth)) = 1 \<and>
      (length (outs (methodType meth)) = 1 \<or> length (outs (methodType meth)) = 2) \<and>
      impl (outs (methodType meth) ! 0) \<and>
      (st \<longrightarrow> length (outs (methodType meth)) = 2) \<and>
      (length (outs (methodType meth)) = 2 \<longrightarrow> outs (methodType meth) ! 1 = FieldNamerSliceT)) \<and>
   (checkComputeMethodsSignature impl s = None \<longleftrightarrow>
      (\<forall>(mName, mi)\<in>set (Registry_registryByName s).
        (\<forall>fi\<in>set (computedFields (collStore s (mfields (modelStore s mi)))). \<exists>m.
           map_of (methods (modelStore s mi)) (compute (fieldStore s fi)) = Some m \<and>
           checkMethType impl m False = None) \<and>
        (\<forall>fi\<in>set (computedStoredFields (collStore s (mfields (modelStore s mi)))). \<exists>m.
           map_of (methods (modelStore s mi)) (compute (fieldStore s fi)) = Some m \<and>
           checkMethType impl m True = None)))"
proof
  show "checkMethType impl meth st = None \<longleftrightarrow>
      length (ins (methodType meth)) = 1 \<and>
      (length (outs (methodType meth)) = 1 \<or> length (outs (methodType meth)) = 2) \<and>
      impl (outs (methodType meth) ! 0) \<and>
      (st \<longrightarrow> length (outs (methodType meth)) = 2) \<and>
      (length (outs (methodType meth)) = 2 \<longrightarrow> outs (methodType meth) ! 1 = FieldNamerSliceT)"
    unfolding checkMethType_None computeSignatureOK_def
    by (auto split: list.splits)
  show "checkComputeMethodsSignature impl s = None \<longleftrightarrow>
      (\<forall>(mName, mi)\<in>set (Registry_registryByName s).
        (\<forall>fi\<in>set (computedFields (collStore s (mfields (modelStore s mi)))). \<exists>m.
           map_of (methods (modelStore s mi)) (compute (fieldStore s fi)) = Some m \<and>
           checkMethType impl m False = None) \<and>
        (\<forall>fi\<in>set (computedStoredFields (collStore s (mfields (modelStore s mi)))). \<exists>m.
           map_of (methods (modelStore s mi)) (compute (fieldStore s fi)) = Some m \<and>
           checkMethType impl m True = None))"
    by (simp add: checkComputeMethodsSignature_def checkModelsLoop_None checkMethType_None)
qed

lemmas sig_defs = checkComputeMethodsSignature_def Methods_MustGet_def checkMethType_def
  checkMethTypeMsg_def exBootstrap_def exMethod_def exImpl_def exRegistered_def

theorem compute_signature_checked_witness:
  "checkComputeMethodsSignature exImpl (exBootstrap [OtherT ''FieldMap'', FieldNamerSliceT]) = None \<and>
   checkMethType exImpl (exMethod [OtherT ''FieldMap'', FieldNamerSliceT]) True = None \<and>
   checkMethType exImpl (exMethod [OtherT ''FieldMap'']) False = None \<and>
   checkComputeMethodsSignature exImpl (exBootstrap [OtherT ''FieldMap'']) =
     Some (Panic
       ''Compute methods for stored field must return fields to unset as second value'') \<and>
   checkMethType exImpl (exMethod [OtherT ''FieldMap'', Int64T]) False =
     Some (Panic ''Second return value of compute methods must be []models.FieldNamer'') \<and>
   checkMethType exImpl (exMethod [OtherT ''FieldMap'', FieldNamerSliceT, Int64T]) False =
     Some (Panic ''Too many return values for compute method'')"
  using compute_signature_checked[of exImpl "exMethod [OtherT ''FieldMap'', FieldNamerSliceT]"
      True "exBootstrap [OtherT ''FieldMap'', FieldNamerSliceT]"]
    compute_signature_checked[of exImpl "exMethod [OtherT ''FieldMap'']"
      False "exBootstrap [OtherT ''FieldMap'']"]
  by (simp add: sig_defs ex_defs)

section \<open>The combination of record rules\<close>

text \<open>
  Claim C2. For a model's rules, a permission, the acting user's groups and a record:
  the record is accessible iff it satisfies the condition of every global rule that
  governs the permission, and either no group rule that governs the permission applies
  to one of the user's groups, or the record satisfies the condition of at least one
  such group rule.
\<close>

theorem record_rules_combination:
  "accessible reg perm groups env r \<longleftrightarrow>
     (\<forall>rule\<in>snd ` set reg. Global rule \<and> governs rule perm \<longrightarrow> Condition rule env r) \<and>
     ((\<forall>rule\<in>snd ` set reg. \<not> (\<not> Global rule \<and> governs rule perm \<and> inGroups rule groups)) \<or>
      (\<exists>rule\<in>snd ` set reg.
         \<not> Global rule \<and> governs rule perm \<and> inGroups rule groups \<and> Condition rule env r))"
  unfolding accessible_def globalRules_def groupRules_def
  by (auto simp: list_all_iff list_ex_iff filter_empty_conv)

lemmas rule_defs = exRules_def AddRecordRule_def accessible_def globalRules_def groupRules_def
  inGroups_def governs_def Read_def Write_def Unlink_def All_perm_def

theorem record_rules_combination_witness:
  "accessible exRules Read [''G1'', ''G2''] 7 \<lparr>active = True, owner = 3, department = ''Sales''\<rparr> \<and>
   accessible exRules Read [''G1'', ''G2''] 7 \<lparr>active = True, owner = 7, department = ''Stock''\<rparr> \<and>
   \<not> accessible exRules Read [''G1'', ''G2''] 7 \<lparr>active = True, owner = 3, department = ''Stock''\<rparr> \<and>
   \<not> accessible exRules Read [''G1'', ''G2''] 7 \<lparr>active = False, owner = 7, department = ''Sales''\<rparr> \<and>
   \<not> accessible exRules Write [''G1'', ''G2''] 7 \<lparr>active = True, owner = 3, department = ''Sales''\<rparr> \<and>
   accessible exRules Read [] 7 \<lparr>active = True, owner = 3, department = ''Stock''\<rparr> \<and>
   \<not> accessible exRules Read [] 7 \<lparr>active = False, owner = 3, department = ''Stock''\<rparr>"
  using record_rules_combination[of exRules Read "[''G1'', ''G2'']" 7
      "\<lparr>active = True, owner = 3, department = ''Sales''\<rparr>"]
  by (simp add: rule_defs)

section \<open>The junction model of a many-to-many relation\<close>

lemma add_m2mField:
  assumes "fieldStore s fi = m2mField snake mi m"
    and "map_of (registryByName (collStore s fc)) m = None"
  shows "add fc fi s =
    (Inr (), updColl fc (\<lambda>c. c\<lparr>registryByName := AList.update m fi (registryByName c),
                   registryByJSON := AList.update (snake m @ ''_id'') fi (registryByJSON c)\<rparr>) s)"
  using assms
  by (simp add: add_def register_def store_def classify_def check_defs m2mField_def
      isRelatedField_def)

lemma createM2M_new:
  assumes "Registry_Get s relModelName = None" and "model1 \<noteq> model2"
  shows "createM2MRelModelInfo snake relModelName model1 model2 s =
     (Inr (modelCount s, Some (fieldCount s), Some (Suc (fieldCount s))),
      junctionCreated snake relModelName model1 model2 s)"
proof -
  let ?fc = "collCount s" and ?mi = "modelCount s" and ?our = "fieldCount s"
  let ?M = "\<lparr>mname = relModelName, tableName = snake relModelName, mfields = ?fc,
               methods = [], options = Many2ManyLinkModel\<rparr>"
  define s1 where "s1 = snd (allocColl newFieldsCollection s)"
  define s2 where "s2 = snd (allocModel ?M s1)"
  define s3 where "s3 = snd (allocField (m2mField snake ?mi model1) s2)"
  define s4 where "s4 = updColl ?fc (\<lambda>c. c\<lparr>registryByName := AList.update model1 ?our (registryByName c),
                   registryByJSON := AList.update (snake model1 @ ''_id'') ?our (registryByJSON c)\<rparr>) s3"
  define s5 where "s5 = snd (allocField (m2mField snake ?mi model2) s4)"
  define s6 where "s6 = updColl ?fc (\<lambda>c. c\<lparr>registryByName := AList.update model2 (Suc ?our) (registryByName c),
                   registryByJSON := AList.update (snake model2 @ ''_id'') (Suc ?our) (registryByJSON c)\<rparr>) s5"
  note sdefs = s1_def s2_def s3_def s4_def s5_def s6_def allocColl_def allocModel_def
    allocField_def updColl_def
  have e1: "allocColl newFieldsCollection s = (?fc, s1)"
    by (simp add: s1_def allocColl_def)
  have e2: "allocModel ?M s1 = (?mi, s2)"
    by (simp add: s2_def s1_def allocColl_def allocModel_def)
  have e3: "allocField (m2mField snake ?mi model1) s2 = (?our, s3)"
    by (simp add: sdefs)
  have a1: "add ?fc ?our s3 = (Inr (), s4)"
    unfolding s4_def
    by (rule add_m2mField[where mi = ?mi]) (simp_all add: sdefs newFieldsCollection_def)
  have e5: "allocField (m2mField snake ?mi model2) s4 = (Suc ?our, s5)"
    by (simp add: sdefs)
  have a2: "add ?fc (Suc ?our) s5 = (Inr (), s6)"
    unfolding s6_def
    by (rule add_m2mField[where mi = ?mi])
      (use assms(2) in \<open>simp_all add: sdefs newFieldsCollection_def\<close>)
  have fin: "Registry_add ?mi s6 = junctionCreated snake relModelName model1 model2 s"
    using assms(2)
    by (simp add: junctionCreated_def Registry_add_def sdefs newFieldsCollection_def fun_eq_iff)
  show ?thesis
    using assms(1) by (simp add: createM2MRelModelInfo_def e1 e2 e3 a1 e5 a2 fin)
qed


lemma findM2MFields_map_of:
  assumes "distinct (map fst al)" and "model1 \<noteq> model2"
  shows "findM2MFields model1 model2 al (a, b) =
     (case map_of al model1 of Some x \<Rightarrow> Some x | None \<Rightarrow> a,
      case map_of al model2 of Some x \<Rightarrow> Some x | None \<Rightarrow> b)"
  using assms(1)
proof (induction al arbitrary: a b)
  case Nil
  then show ?case by simp
next
  case (Cons p al)
  obtain fName fi where p: "p = (fName, fi)" by (cases p)
  from Cons.prems have d: "distinct (map fst al)" and n: "fName \<notin> fst ` set al"
    by (simp_all add: p)
  from n have none: "map_of al fName = None"
    by (simp add: map_of_eq_None_iff)
  show ?case
    unfolding p using assms(2) none by (auto simp: Cons.IH[OF d])
qed

text \<open>
  Claim C6, as the code has it, for two different model names. When no model of the
  name \<open>relModelName\<close> is registered, \<open>createM2MRelModelInfo\<close> allocates a model of
  that name with the option of link models, registers it, and returns it with its two
  fields, which are all its fields by name: the one named \<open>model1\<close> and the one named
  \<open>model2\<close>, each a required, indexed, not copied \<open>many2one\<close> field to the model
  of its name with the on-delete action \<open>cascade\<close>; nothing else of the store
  changes. When a model of the name exists, it is returned with the fields that its
  registry by name has for \<open>model1\<close> and \<open>model2\<close>, and the store is unchanged (the
  keys of the Go map are distinct).
\<close>

theorem createM2MRelModelInfo_junction:
  "(Registry_Get s relModelName = None \<and> model1 \<noteq> model2 \<longrightarrow>
      (\<exists>s'. createM2MRelModelInfo snake relModelName model1 model2 s =
                (Inr (modelCount s, Some (fieldCount s), Some (Suc (fieldCount s))), s') \<and>
            Registry_Get s' relModelName = Some (modelCount s) \<and>
            mname (modelStore s' (modelCount s)) = relModelName \<and>
            options (modelStore s' (modelCount s)) = Many2ManyLinkModel \<and>
            registryByName (collStore s' (mfields (modelStore s' (modelCount s)))) =
              [(model1, fieldCount s), (model2, Suc (fieldCount s))] \<and>
            fieldStore s' (fieldCount s) = m2mField snake (modelCount s) model1 \<and>
            fieldStore s' (Suc (fieldCount s)) = m2mField snake (modelCount s) model2 \<and>
            (\<forall>a. a \<noteq> fieldCount s \<and> a \<noteq> Suc (fieldCount s) \<longrightarrow>
                 fieldStore s' a = fieldStore s a) \<and>
            (\<forall>a. a \<noteq> modelCount s \<longrightarrow> modelStore s' a = modelStore s a) \<and>
            (\<forall>a. a \<noteq> collCount s \<longrightarrow> collStore s' a = collStore s a))) \<and>
   (\<forall>m mi. name (m2mField snake mi m) = m \<and> relatedModelName (m2mField snake mi m) = m \<and>
      model (m2mField snake mi m) = Some mi \<and> fieldType (m2mField snake mi m) = Many2One \<and>
      required (m2mField snake mi m) \<and> index (m2mField snake mi m) \<and>
      noCopy (m2mField snake mi m) \<and> onDelete (m2mField snake mi m) = Cascade) \<and>
   (Registry_Get s relModelName = Some relMI \<and> model1 \<noteq> model2 \<and>
    distinct (map fst (registryByName (collStore s (mfields (modelStore s relMI))))) \<longrightarrow>
      createM2MRelModelInfo snake relModelName model1 model2 s =
        (Inr (relMI,
              map_of (registryByName (collStore s (mfields (modelStore s relMI)))) model1,
              map_of (registryByName (collStore s (mfields (modelStore s relMI)))) model2),
         s))"
proof (intro conjI impI allI)
  assume a: "Registry_Get s relModelName = None \<and> model1 \<noteq> model2"
  let ?s' = "junctionCreated snake relModelName model1 model2 s"
  have "createM2MRelModelInfo snake relModelName model1 model2 s =
      (Inr (modelCount s, Some (fieldCount s), Some (Suc (fieldCount s))), ?s')"
    using a createM2M_new by blast
  moreover have "Registry_Get ?s' relModelName = Some (modelCount s)"
    by (simp add: Registry_Get_def junctionCreated_def update_conv')
  moreover have "mname (modelStore ?s' (modelCount s)) = relModelName"
    "options (modelStore ?s' (modelCount s)) = Many2ManyLinkModel"
    "registryByName (collStore ?s' (mfields (modelStore ?s' (modelCount s)))) =
        [(model1, fieldCount s), (model2, Suc (fieldCount s))]"
    "fieldStore ?s' (fieldCount s) = m2mField snake (modelCount s) model1"
    "fieldStore ?s' (Suc (fieldCount s)) = m2mField snake (modelCount s) model2"
    "\<forall>a. a \<noteq> fieldCount s \<and> a \<noteq> Suc (fieldCount s) \<longrightarrow> fieldStore ?s' a = fieldStore s a"
    "\<forall>a. a \<noteq> modelCount s \<longrightarrow> modelStore ?s' a = modelStore s a"
    "\<forall>a. a \<noteq> collCount s \<longrightarrow> collStore ?s' a = collStore s a"
    by (simp_all add: junctionCreated_def)
  ultimately show "\<exists>s'. createM2MRelModelInfo snake relModelName model1 model2 s =
                (Inr (modelCount s, Some (fieldCount s), Some (Suc (fieldCount s))), s') \<and>
            Registry_Get s' relModelName = Some (modelCount s) \<and>
            mname (modelStore s' (modelCount s)) = relModelName \<and>
            options (modelStore s' (modelCount s)) = Many2ManyLinkModel \<and>
            registryByName (collStore s' (mfields (modelStore s' (modelCount s)))) =
              [(model1, fieldCount s), (model2, Suc (fieldCount s))] \<and>
            fieldStore s' (fieldCount s) = m2mField snake (modelCount s) model1 \<and>
            fieldStore s' (Suc (fieldCount s)) = m2mField snake (modelCount s) model2 \<and>
            (\<forall>a. a \<noteq> fieldCount s \<and> a \<noteq> Suc (fieldCount s) \<longrightarrow>
                 fieldStore s' a = fieldStore s a) \<and>
            (\<forall>a. a \<noteq> modelCount s \<longrightarrow> modelStore s' a = modelStore s a) \<and>
            (\<forall>a. a \<noteq> collCount s \<longrightarrow> collStore s' a = collStore s a)"
    by blast
next
  assume a: "Registry_Get s relModelName = Some relMI \<and> model1 \<noteq> model2 \<and>
    distinct (map fst (registryByName (collStore s (mfields (modelStore s relMI)))))"
  then show "createM2MRelModelInfo snake relModelName model1 model2 s =
        (Inr (relMI,
              map_of (registryByName (collStore s (mfields (modelStore s relMI)))) model1,
              map_of (registryByName (collStore s (mfields (modelStore s relMI)))) model2),
         s)"
    by (simp add: createM2MRelModelInfo_def findM2MFields_map_of split: option.splits)
qed (simp_all add: m2mField_def)

lemmas m2m_defs = createM2MRelModelInfo_def Registry_Get_def Registry_add_def allocColl_def
  allocModel_def allocField_def m2mField_def junctionCreated_def exJunction_def
  exSelfJunction_def Cascade_def Many2ManyLinkModel_def

theorem createM2MRelModelInfo_junction_witness:
  "Registry_Get zeroState ''UserGroupRel'' = None \<and>
   createM2MRelModelInfo (\<lambda>n. n) ''UserGroupRel'' ''User'' ''Group'' zeroState =
     (Inr (0, Some 0, Some 1), exJunction) \<and>
   Registry_Get exJunction ''UserGroupRel'' = Some 0 \<and>
   registryByName (collStore exJunction (mfields (modelStore exJunction 0))) =
     [(''User'', 0), (''Group'', 1)] \<and>
   relatedModelName (fieldStore exJunction 0) = ''User'' \<and>
   relatedModelName (fieldStore exJunction 1) = ''Group'' \<and>
   createM2MRelModelInfo (\<lambda>n. n) ''UserGroupRel'' ''User'' ''Group'' exJunction =
     (Inr (0, Some 0, Some 1), exJunction)"
  using createM2MRelModelInfo_junction[of zeroState "''UserGroupRel''" "''User''" "''Group''"
      "\<lambda>n. n"]
    createM2MRelModelInfo_junction[of exJunction "''UserGroupRel''" "''User''" "''Group''"
      "\<lambda>n. n" 0]
    createM2M_new[of zeroState "''UserGroupRel''" "''User''" "''Group''" "\<lambda>n. n"]
  by (simp add: Registry_Get_def junctionCreated_def exJunction_def zeroState_def m2mField_def)

text \<open>
  The claim as stated fails for a relation of a model with itself: the second foreign
  key has the name of the first, \<open>add\<close> panics and no model is registered; and of an
  existing junction model the loop returns the field named \<open>Tag\<close> once only.
\<close>

theorem createM2MRelModelInfo_self_counterexample:
  "Registry_Get zeroState ''TagTagRel'' = None \<and>
   fst (createM2MRelModelInfo (\<lambda>n. n) ''TagTagRel'' ''Tag'' ''Tag'' zeroState) =
     Inl (Panic ''Trying to add already existing field'') \<and>
   Registry_Get (snd (createM2MRelModelInfo (\<lambda>n. n) ''TagTagRel'' ''Tag'' ''Tag'' zeroState))
     ''TagTagRel'' = None \<and>
   Registry_Get exSelfJunction ''TagTagRel'' = Some 0 \<and>
   map_of (registryByName (collStore exSelfJunction (mfields (modelStore exSelfJunction 0))))
     ''Tag'' = Some 0 \<and>
   createM2MRelModelInfo (\<lambda>n. n) ''TagTagRel'' ''Tag'' ''Tag'' exSelfJunction =
     (Inr (0, Some 0, None), exSelfJunction)"
  by (simp add: m2m_defs ex_defs check_defs register_defs)

section \<open>The reverse edges of the dependency graph\<close>

text \<open>Joining the segments of a path gives the path back.\<close>

lemma Split_not_Nil: "Split p \<noteq> []"
  by (induction p) (auto split: list.splits)

lemma Join_Cons_char: "Join ((c # w) # ws) = c # Join (w # ws)"
  by (cases ws) simp_all

lemma Join_Split: "Join (Split p) = p"
proof (induction p)
  case Nil
  then show ?case by simp
next
  case (Cons c cs)
  obtain w ws where sp: "Split cs = w # ws"
    using Split_not_Nil[of cs] by (cases "Split cs") auto
  show ?case
  proof (cases "c = ExprSep")
    case True
    then show ?thesis using Cons.IH sp by simp
  next
    case False
    then show ?thesis using Cons.IH sp by (simp add: Join_Cons_char)
  qed
qed

lemma attached_simps [simp]:
  "attached a [] = []"
  "attached a (es @ es') = attached a es @ attached a es'"
  "attached a [(t, cd)] = (if t = a then [cd] else [])"
  by (simp_all add: attached_def)

lemma onlyDeps_refl: "onlyDeps s s"
  by (simp add: onlyDeps_def)

lemma onlyDeps_compute:
  assumes "onlyDeps s s1"
  shows "compute (fieldStore s1 a) = compute (fieldStore s a)"
    and "depends (fieldStore s1 a) = depends (fieldStore s a)"
proof -
  from assms have "fieldStore s1 a = (fieldStore s a)\<lparr>dependencies := dependencies (fieldStore s1 a)\<rparr>"
    by (simp add: onlyDeps_def)
  then have "compute (fieldStore s1 a) = compute ((fieldStore s a)\<lparr>dependencies := dependencies (fieldStore s1 a)\<rparr>)"
    and "depends (fieldStore s1 a) = depends ((fieldStore s a)\<lparr>dependencies := dependencies (fieldStore s1 a)\<rparr>)"
    by simp_all
  then show "compute (fieldStore s1 a) = compute (fieldStore s a)"
    and "depends (fieldStore s1 a) = depends (fieldStore s a)" by simp_all
qed

lemma onlyDeps_append:
  assumes "onlyDeps s s1"
  shows "onlyDeps s (updField r (\<lambda>f. f\<lparr>dependencies := dependencies f @ [cd]\<rparr>) s1)"
proof -
  have "\<And>a. fieldStore s1 a = (fieldStore s a)\<lparr>dependencies := dependencies (fieldStore s1 a)\<rparr>"
    using assms by (simp add: onlyDeps_def)
  then have h: "\<And>a. fieldStore s1 a = (fieldStore s a)\<lparr>dependencies := dependencies (fieldStore s1 a)\<rparr>" .
  have upd: "(fieldStore s1 r)\<lparr>dependencies := d\<rparr> = (fieldStore s r)\<lparr>dependencies := d\<rparr>" for d
    using arg_cong[where f = "\<lambda>f. f\<lparr>dependencies := d\<rparr>", OF h[of r]] by simp
  have fs: "fieldStore (updField r (\<lambda>f. f\<lparr>dependencies := dependencies f @ [cd]\<rparr>) s1) a =
      (fieldStore s a)\<lparr>dependencies := dependencies
         (fieldStore (updField r (\<lambda>f. f\<lparr>dependencies := dependencies f @ [cd]\<rparr>) s1) a)\<rparr>" for a
  proof (cases "a = r")
    case True
    then show ?thesis by (simp add: updField_def upd)
  next
    case False
    then show ?thesis using h[of a] by (simp add: updField_def)
  qed
  have rest: "collStore (updField r g s1) = collStore s1" "modelStore (updField r g s1) = modelStore s1"
    "fieldCount (updField r g s1) = fieldCount s1" "collCount (updField r g s1) = collCount s1"
    "modelCount (updField r g s1) = modelCount s1"
    "Registry_registryByName (updField r g s1) = Registry_registryByName s1"
    "Registry_registryByTableName (updField r g s1) = Registry_registryByTableName s1" for g
    by (simp_all add: updField_def)
  show ?thesis unfolding onlyDeps_def rest using assms fs by (simp add: onlyDeps_def)
qed

lemma processDep_step:
  assumes run: "processDep J G mi fInfo depString s1 = (Inr u, s2)" and od: "onlyDeps s s1"
  shows "onlyDeps s s2"
    and "\<And>a. dependencies (fieldStore s2 a) =
          dependencies (fieldStore s1 a) @ attached a (edge J G s mi fInfo depString)"
    and "edgeFound J G s mi fInfo depString"
proof -
  have cs: "collStore s1 = collStore s" "modelStore s1 = modelStore s"
    using od by (simp_all add: onlyDeps_def)
  note cp = onlyDeps_compute(1)[OF od, of fInfo]
  show "onlyDeps s s2"
    using run od onlyDeps_append[OF od]
    by (auto simp: processDep_def Let_def split: if_splits sum.splits)
  show "dependencies (fieldStore s2 a) =
          dependencies (fieldStore s1 a) @ attached a (edge J G s mi fInfo depString)" for a
    using run
    by (auto simp: processDep_def edge_def Let_def cs cp updField_def split: if_splits sum.splits)
  show "edgeFound J G s mi fInfo depString"
    using run
    by (auto simp: processDep_def edgeFound_def Let_def cs split: if_splits sum.splits)
qed


lemma dependsLoop_step:
  assumes "dependsLoop J G mi fInfo ds s1 = (Inr u, s2)" and "onlyDeps s s1"
  shows "onlyDeps s s2 \<and>
     (\<forall>a. dependencies (fieldStore s2 a) =
          dependencies (fieldStore s1 a) @ attached a (concat (map (edge J G s mi fInfo) ds))) \<and>
     (\<forall>d\<in>set ds. edgeFound J G s mi fInfo d)"
  using assms
proof (induction ds arbitrary: s1)
  case Nil
  then show ?case by simp
next
  case (Cons d ds)
  from Cons.prems(1) obtain u1 sm where p: "processDep J G mi fInfo d s1 = (Inr u1, sm)"
    and rest: "dependsLoop J G mi fInfo ds sm = (Inr u, s2)"
    by (auto split: prod.splits sum.splits)
  note st = processDep_step[OF p Cons.prems(2)]
  from Cons.IH[OF rest st(1)] st(2,3) show ?case by simp
qed

lemma fieldsLoop_step:
  assumes "fieldsLoop J G mi al s1 = (Inr u, s2)" and "onlyDeps s s1"
  shows "onlyDeps s s2 \<and>
     (\<forall>a. dependencies (fieldStore s2 a) =
          dependencies (fieldStore s1 a) @
          attached a (concat (map (\<lambda>(jsonName, fInfo). fieldEdges J G s mi fInfo) al))) \<and>
     (\<forall>(jsonName, fInfo)\<in>set al. \<forall>d\<in>set (depends (fieldStore s fInfo)).
         edgeFound J G s mi fInfo d)"
  using assms
proof (induction al arbitrary: s1)
  case Nil
  then show ?case by simp
next
  case (Cons x al)
  obtain jn fInfo where x: "x = (jn, fInfo)" by (cases x)
  from Cons.prems(1) obtain u1 sm where
    p: "dependsLoop J G mi fInfo (depends (fieldStore s1 fInfo)) s1 = (Inr u1, sm)"
    and rest: "fieldsLoop J G mi al sm = (Inr u, s2)"
    unfolding x by (auto split: prod.splits sum.splits)
  note dp = onlyDeps_compute(2)[OF Cons.prems(2), of fInfo]
  note st = dependsLoop_step[OF p[unfolded dp] Cons.prems(2)]
  from Cons.IH[OF rest conjunct1[OF st]] st show ?case
    unfolding x by (simp add: fieldEdges_def)
qed

lemma modelsLoop_step:
  assumes "modelsLoop J G ml s1 = (Inr u, s2)" and "onlyDeps s s1"
  shows "onlyDeps s s2 \<and>
     (\<forall>a. dependencies (fieldStore s2 a) =
          dependencies (fieldStore s1 a) @
          attached a (concat (map (\<lambda>(tName, mi). modelEdges J G s mi) ml))) \<and>
     (\<forall>(tName, mi)\<in>set ml.
        \<forall>(jsonName, fInfo)\<in>set (registryByJSON (collStore s (mfields (modelStore s mi)))).
          \<forall>d\<in>set (depends (fieldStore s fInfo)). edgeFound J G s mi fInfo d)"
  using assms
proof (induction ml arbitrary: s1)
  case Nil
  then show ?case by simp
next
  case (Cons x ml)
  obtain tn mi where x: "x = (tn, mi)" by (cases x)
  have cs: "collStore s1 = collStore s" "modelStore s1 = modelStore s"
    using Cons.prems(2) by (simp_all add: onlyDeps_def)
  from Cons.prems(1) obtain u1 sm where
    p: "fieldsLoop J G mi (registryByJSON (collStore s (mfields (modelStore s mi)))) s1 = (Inr u1, sm)"
    and rest: "modelsLoop J G ml sm = (Inr u, s2)"
    unfolding x by (auto simp: cs split: prod.splits sum.splits)
  note st = fieldsLoop_step[OF p Cons.prems(2)]
  from Cons.IH[OF rest conjunct1[OF st]] st show ?case
    unfolding x by (simp add: modelEdges_def)
qed


lemma edgesTo_attached: "edgesTo J G s a = attached a (edges J G s)"
  by (simp add: edgesTo_def attached_def)

lemma attached_mem: "(a, cd) \<in> set es \<Longrightarrow> cd \<in> set (attached a es)"
  by (force simp: attached_def)

lemma edge_mem:
  assumes "(tName, mi) \<in> set (Registry_registryByTableName s)"
    and "(jsonName, fInfo) \<in> set (registryByJSON (collStore s (mfields (modelStore s mi))))"
    and "p \<in> set (depends (fieldStore s fInfo))"
    and "e \<in> set (edge J G s mi fInfo p)"
  shows "e \<in> set (edges J G s)"
proof -
  have "e \<in> set (fieldEdges J G s mi fInfo)"
    using assms(3,4) by (auto simp: fieldEdges_def)
  then have "e \<in> set (modelEdges J G s mi)"
    using assms(2) by (force simp: modelEdges_def)
  then show ?thesis
    using assms(1) by (force simp: edges_def)
qed

text \<open>
  Claim C1, as the code has it. When \<open>processDepends\<close> returns, for every model
  \<open>mi\<close> of the registry by table name, every field \<open>fInfo\<close> of its registry by JSON
  name and every non-empty entry \<open>p\<close> of the field's \<open>depends\<close>: with \<open>tokens\<close> the
  segments of \<open>p\<close> as \<open>jsonizeExpr\<close> returns them, the field that \<open>MustGet\<close> finds
  for the last token on the model that \<open>getRelatedModelInfo\<close> reaches by the leading
  tokens has among its \<open>dependencies\<close> the entry whose model is \<open>mi\<close>, whose compute is
  the compute method name of \<open>fInfo\<close> and whose path is the leading tokens joined by
  the separator. The \<open>dependencies\<close> of every field are the ones it had, followed by
  one entry for each such path that ends at the field, and nothing else of the store
  changes.
\<close>

theorem processDepends_back_edges:
  assumes run: "processDepends J G s = (Inr u, s')"
  shows "(\<forall>(tName, mi)\<in>set (Registry_registryByTableName s).
          \<forall>(jsonName, fInfo)\<in>set (registryByJSON (collStore s (mfields (modelStore s mi)))).
          \<forall>p\<in>set (depends (fieldStore s fInfo)). p \<noteq> [] \<longrightarrow>
            (\<exists>tokens refModelInfo refField.
               J mi (Split p) = Inr tokens \<and> tokens \<noteq> [] \<and>
               G mi (Join (butlast tokens)) = Inr refModelInfo \<and>
               MustGet (collStore s (mfields (modelStore s refModelInfo))) (last tokens) =
                 Inr refField \<and>
               \<lparr>modelInfo = mi, computeName = compute (fieldStore s fInfo),
                path = Join (butlast tokens)\<rparr> \<in> set (dependencies (fieldStore s' refField)))) \<and>
         (\<forall>a. dependencies (fieldStore s' a) = dependencies (fieldStore s a) @ edgesTo J G s a) \<and>
         onlyDeps s s'"
proof -
  from run have ml: "modelsLoop J G (Registry_registryByTableName s) s = (Inr u, s')"
    by (simp add: processDepends_def)
  note st = modelsLoop_step[OF ml onlyDeps_refl]
  have deps: "dependencies (fieldStore s' a) = dependencies (fieldStore s a) @ edgesTo J G s a" for a
    using st by (simp add: edgesTo_attached edges_def)
  have found: "edgeFound J G s mi fInfo p"
    if "(tName, mi) \<in> set (Registry_registryByTableName s)"
      and "(jsonName, fInfo) \<in> set (registryByJSON (collStore s (mfields (modelStore s mi))))"
      and "p \<in> set (depends (fieldStore s fInfo))" for tName mi jsonName fInfo p
    using st that by blast
  have edge_in: "\<exists>tokens refModelInfo refField.
               J mi (Split p) = Inr tokens \<and> tokens \<noteq> [] \<and>
               G mi (Join (butlast tokens)) = Inr refModelInfo \<and>
               MustGet (collStore s (mfields (modelStore s refModelInfo))) (last tokens) =
                 Inr refField \<and>
               \<lparr>modelInfo = mi, computeName = compute (fieldStore s fInfo),
                path = Join (butlast tokens)\<rparr> \<in> set (dependencies (fieldStore s' refField))"
    if m: "(tName, mi) \<in> set (Registry_registryByTableName s)"
      and f: "(jsonName, fInfo) \<in> set (registryByJSON (collStore s (mfields (modelStore s mi))))"
      and p: "p \<in> set (depends (fieldStore s fInfo))" and ne: "p \<noteq> []"
    for tName mi jsonName fInfo p
  proof -
    from found[OF m f p] ne obtain tokens refModelInfo refField where
      t: "J mi (Split p) = Inr tokens" "tokens \<noteq> []"
        "G mi (Join (butlast tokens)) = Inr refModelInfo"
        "MustGet (collStore s (mfields (modelStore s refModelInfo))) (last tokens) = Inr refField"
      by (auto simp: edgeFound_def)
    let ?cd = "\<lparr>modelInfo = mi, computeName = compute (fieldStore s fInfo),
                path = Join (butlast tokens)\<rparr>"
    have "edge J G s mi fInfo p = [(refField, ?cd)]"
      using t ne by (simp add: edge_def)
    then have "(refField, ?cd) \<in> set (edges J G s)"
      using edge_mem[OF m f p] by simp
    then have "?cd \<in> set (edgesTo J G s refField)"
      by (simp add: edgesTo_attached attached_mem)
    then have "?cd \<in> set (dependencies (fieldStore s' refField))"
      by (simp add: deps)
    with t show ?thesis by blast
  qed
  show ?thesis using edge_in deps st by blast
qed

lemma Split_examples:
  "Split ''Profile.Name'' = [''Profile'', ''Name'']"
  "Split ''Profile'' = [''Profile'']"
  by (simp_all add: ExprSep_def)

lemmas dep_defs = processDepends_def processDep_def exJsonize_def exFollow_def exDepends_def
  exDependsDone_def addDependency_def MustGet_def get_def updField_def zeroState_def
  zeroField_def zeroModel_def newFieldsCollection_def Split_examples ExprSep_def Let_def

lemma processDepends_example:
  "processDepends exJsonize exFollow exDepends = (Inr (), exDependsDone)"
  by (simp add: dep_defs)

theorem processDepends_back_edges_witness:
  "processDepends exJsonize exFollow exDepends = (Inr (), exDependsDone) \<and>
   dependencies (fieldStore exDepends 2) = [] \<and>
   edgesTo exJsonize exFollow exDepends 2 =
     [\<lparr>modelInfo = 0, computeName = ''ComputeDisplayName'', path = ''profile_id''\<rparr>,
      \<lparr>modelInfo = 0, computeName = ''ComputeGreeting'', path = ''profile_id''\<rparr>] \<and>
   dependencies (fieldStore exDependsDone 2) =
     [\<lparr>modelInfo = 0, computeName = ''ComputeDisplayName'', path = ''profile_id''\<rparr>,
      \<lparr>modelInfo = 0, computeName = ''ComputeGreeting'', path = ''profile_id''\<rparr>] \<and>
   dependencies (fieldStore exDependsDone 0) =
     [\<lparr>modelInfo = 0, computeName = ''ComputeDisplayName'', path = []\<rparr>]"
  using processDepends_back_edges[of exJsonize exFollow exDepends "()" exDependsDone]
    processDepends_example
  by (simp add: dep_defs edgesTo_def edges_def modelEdges_def fieldEdges_def edge_def)

text \<open>
  The claim as stated fails where \<open>jsonizeExpr\<close> rewrites a segment: for the entry
  \<open>Profile.Name\<close> of \<open>DisplayName\<close> the leading segment is \<open>Profile\<close>, and the
  path of the edge attached to \<open>Name\<close> is \<open>profile_id\<close>.
\<close>

theorem processDepends_path_counterexample:
  "(''user'', 0) \<in> set (Registry_registryByTableName exDepends) \<and>
   (''display_name'', 1) \<in> set (registryByJSON (collStore exDepends (mfields (modelStore exDepends 0)))) \<and>
   ''Profile.Name'' \<in> set (depends (fieldStore exDepends 1)) \<and>
   Join (butlast (Split ''Profile.Name'')) = ''Profile'' \<and>
   processDepends exJsonize exFollow exDepends = (Inr (), exDependsDone) \<and>
   MustGet (collStore exDepends 1) ''Name'' = Inr 2 \<and>
   \<lparr>modelInfo = 0, computeName = ''ComputeDisplayName'', path = ''Profile''\<rparr>
     \<notin> set (dependencies (fieldStore exDependsDone 2)) \<and>
   \<lparr>modelInfo = 0, computeName = ''ComputeDisplayName'', path = ''profile_id''\<rparr>
     \<in> set (dependencies (fieldStore exDependsDone 2))"
  using processDepends_example by (simp add: dep_defs)

end
